theory Spec2Isabelle
  imports Complex_Main "HOL-Library.AList"
begin

section \<open>Python values shared by both source files\<close>

text \<open>
  Exceptions are values. \<open>Raised s\<close> stands for an exception that one of the external
  collaborators (the model, the evaluator, torch) raises on its own account.
\<close>

datatype error = ValueError | AttributeError | IndexError | RuntimeError | Raised string

text \<open>
  A sample of a dataset, and a torch tensor: the shape and the elements in row-major order.
\<close>

record 'a tensor =
  dims :: "nat list"
  flat :: "'a list"

text \<open>
  A numpy array as \<open>train\<close> sees it: its \<open>shape\<close> attribute and the entries along the
  first axis (what \<open>arr[i]\<close> and \<open>len(arr)\<close> read).
\<close>

record 'r ndarray =
  shape :: "nat list"
  items :: "'r list"

section \<open>exp/fit_competitor.py\<close>

subsection \<open>Configuration, collaborators and observable effects\<close>

text \<open>The \<open>evaluation\<close> dictionary of the experiment configuration (lines 25-29).\<close>

record evaluation =
  active :: bool
  k_cfg :: int
  evaluate_on :: string

text \<open>
  The run object: only \<open>_run.observers[0].dir\<close> is read. An observer's \<open>dir\<close> is a path
  or Python's \<open>None\<close>.
\<close>

record observer =
  dir :: "string option"

record run =
  observers :: "observer list"

text \<open>
  The model object returned by \<open>model_config.get_instance()\<close>. A method the object does
  not have is \<open>None\<close>, so \<open>hasattr(model, 'transform')\<close> is \<open>transform cls \<noteq> None\<close>.
  \<open>fit_transform\<close> changes the object (it fits it); the fitted object is returned
  together with the embedding. Both methods may raise.
\<close>

record ('m, 'a, 'z) model_class =
  fit_transform :: "('m \<Rightarrow> 'a list ndarray \<Rightarrow> error + ('z ndarray \<times> 'm)) option"
  transform :: "('m \<Rightarrow> 'a list ndarray \<Rightarrow> error + 'z ndarray) option"

text \<open>
  Everything \<open>train\<close> does to the outside world, in program order: log lines, calls of
  the model's methods, files written, the plotting request, the call of the evaluator.
\<close>

datatype ('m, 'a, 'l, 'z) event =
    LogWarn string
  | LogInfo string
  | CallFitTransform "'a list ndarray"
  | CallTransform "'a list ndarray"
  | PickleDump string 'm
  | Savez string "'z ndarray" "'l list"
  | VisualizeLatents "'z ndarray" "'l list" string
  | EvaluateSpace int "'a list ndarray" "'z ndarray" "'l list" int

text \<open>
  A computation yields the events it emitted and either the exception that ended it or
  its value. \<open>bind\<close> is the semicolon of the script: the second statement runs only when
  the first one returned, and the events of both are kept in order.
\<close>

type_synonym ('ev, 'x) comp = "'ev list \<times> (error + 'x)"

definition ret :: "'x \<Rightarrow> ('ev, 'x) comp" where
  "ret x = ([], Inr x)"

definition lift :: "error + 'x \<Rightarrow> ('ev, 'x) comp" where
  "lift r = ([], r)"

definition emit :: "'ev \<Rightarrow> ('ev, unit) comp" where
  "emit ev = ([ev], Inr ())"

definition bind :: "('ev, 'x) comp \<Rightarrow> ('x \<Rightarrow> ('ev, 'y) comp) \<Rightarrow> ('ev, 'y) comp" where
  "bind m f =
     (case m of
        (evs, Inl e) \<Rightarrow> (evs, Inl e)
      | (evs, Inr x) \<Rightarrow> (case f x of (evs', r) \<Rightarrow> (evs @ evs', r)))"

subsection \<open>Library calls\<close>

text \<open>
  \<open>data, labels = zip(*dataset)\<close>: the pairs are split into the tuple of samples and the
  tuple of labels; on an empty dataset \<open>zip()\<close> yields nothing and the unpacking raises
  \<open>ValueError\<close>.
\<close>

definition zip_star :: "('s \<times> 'l) list \<Rightarrow> error + ('s list \<times> 'l list)" where
  "zip_star dataset =
     (if dataset = [] then Inl ValueError else Inr (map fst dataset, map snd dataset))"

text \<open>
  \<open>np.stack(data).reshape(len(data), -1)\<close>: \<open>np.stack\<close> raises \<open>ValueError\<close> on an empty
  sequence and on samples of different shapes; the reshape makes every sample one row.
\<close>

definition np_stack_reshape :: "'a tensor list \<Rightarrow> error + 'a list ndarray" where
  "np_stack_reshape arrays =
     (case arrays of
        [] \<Rightarrow> Inl ValueError
      | a # as \<Rightarrow>
          if list_all (\<lambda>b. dims b = dims a) as
          then Inr \<lparr>shape = [length arrays, prod_list (dims a)], items = map flat arrays\<rparr>
          else Inl ValueError)"

text \<open>\<open>arr.shape[i]\<close>: indexing the shape tuple out of range raises \<open>IndexError\<close>.\<close>

definition shape_at :: "'r ndarray \<Rightarrow> nat \<Rightarrow> error + nat" where
  "shape_at arr i = (if i < length (shape arr) then Inr (shape arr ! i) else Inl IndexError)"

text \<open>\<open>os.path.join(a, b)\<close> of \<open>posixpath\<close>, for two components.\<close>

definition os_path_join :: "string \<Rightarrow> string \<Rightarrow> string" where
  "os_path_join a b =
     (if take 1 b = ''/'' then b
      else if a = [] \<or> last a = CHR ''/'' then a @ b
      else a @ ''/'' @ b)"

text \<open>
  A Python dictionary with string keys, in insertion order. \<open>d[k] = v\<close> replaces the value
  of a key that is present and appends a new key otherwise; a dictionary comprehension
  and \<open>dict.update\<close> store their items one after the other.
\<close>

type_synonym 'v dict = "(string \<times> 'v) list"

definition dict_setitem :: "'v dict \<Rightarrow> string \<Rightarrow> 'v \<Rightarrow> 'v dict" where
  "dict_setitem d key v = AList.update key v d"

definition dict_update :: "'v dict \<Rightarrow> 'v dict \<Rightarrow> 'v dict" where
  "dict_update d other = foldl (\<lambda>acc (key, v). dict_setitem acc key v) d other"

definition keys :: "'v dict \<Rightarrow> string list" where
  "keys d = map fst d"

subsection \<open>train\<close>

text \<open>
  The model starts where lines 38-45 have returned: the three dataset partitions and the
  model object are inputs. \<open>evaluate_space\<close> is the method of \<open>Multi_Evaluation\<close>, applied
  to the seed the evaluator was constructed with; it may raise. Writing a file and
  plotting are taken to complete.
\<close>

definition call_fit_transform ::
  "('m, 'a, 'z) model_class \<Rightarrow> 'm \<Rightarrow> 'a list ndarray \<Rightarrow>
     (('m, 'a, 'l, 'z) event, 'z ndarray \<times> 'm) comp" where
  "call_fit_transform cls model data =
     (case fit_transform cls of
        None \<Rightarrow> lift (Inl AttributeError)
      | Some f \<Rightarrow> bind (emit (CallFitTransform data)) (\<lambda>_. lift (f model data)))"

definition call_transform ::
  "('m, 'a, 'z) model_class \<Rightarrow> 'm \<Rightarrow> 'a list ndarray \<Rightarrow>
     (('m, 'a, 'l, 'z) event, 'z ndarray) comp" where
  "call_transform cls model data =
     (case transform cls of
        None \<Rightarrow> lift (Inl AttributeError)
      | Some f \<Rightarrow> bind (emit (CallTransform data)) (\<lambda>_. lift (f model data)))"

text \<open>Lines 63-67: \<open>observers[0]\<close> on an empty list raises \<open>IndexError\<close>, which is caught.\<close>

definition get_rundir :: "run \<Rightarrow> string option" where
  "get_rundir r = (case observers r of [] \<Rightarrow> None | ob # _ \<Rightarrow> dir ob)"

text \<open>
  \<open>if rundir: body\<close> runs the body for a non-empty string only: \<open>None\<close> and the empty
  string are false.
\<close>

definition truthy :: "string option \<Rightarrow> bool" where
  "truthy rundir = (case rundir of None \<Rightarrow> False | Some d \<Rightarrow> d \<noteq> [])"

definition if_rundir :: "string option \<Rightarrow> (string \<Rightarrow> ('ev, unit) comp) \<Rightarrow> ('ev, unit) comp" where
  "if_rundir rundir body =
     (case rundir of None \<Rightarrow> ret () | Some d \<Rightarrow> if d \<noteq> [] then body d else ret ())"

text \<open>Lines 47-58: the data the model is fitted on.\<close>

definition fit_data ::
  "bool \<Rightarrow> ('a tensor \<times> 'l) list \<Rightarrow> ('a tensor \<times> 'l) list \<Rightarrow>
     (('m, 'a, 'l, 'z) event, 'a list ndarray \<times> 'l list) comp" where
  "fit_data supports_transform train_dataset test_dataset =
     bind (if supports_transform then lift (zip_star train_dataset)
           else bind (emit (LogWarn ''Model does not support separate training and prediction.''))
             (\<lambda>_. bind (emit (LogWarn ''Directly running on test dataset!''))
             (\<lambda>_. lift (zip_star test_dataset))))
       (\<lambda>(data, labels). bind (lift (np_stack_reshape data))
       (\<lambda>data. ret (data, labels)))"

text \<open>Lines 78-88: the data, labels and embedding that are evaluated.\<close>

definition eval_data ::
  "('m, 'a, 'z) model_class \<Rightarrow> 'm \<Rightarrow> bool \<Rightarrow> string \<Rightarrow>
   ('a tensor \<times> 'l) list \<Rightarrow> ('a tensor \<times> 'l) list \<Rightarrow>
   'a list ndarray \<Rightarrow> 'l list \<Rightarrow> 'z ndarray \<Rightarrow>
     (('m, 'a, 'l, 'z) event, 'a list ndarray \<times> 'l list \<times> 'z ndarray) comp" where
  "eval_data cls model supports_transform evaluate_on' validation_dataset test_dataset
       data labels transformed_data =
     (if supports_transform then
        bind (if evaluate_on' = ''validation'' then lift (zip_star validation_dataset)
              else lift (zip_star test_dataset))
          (\<lambda>(data, labels). bind (lift (np_stack_reshape data))
          (\<lambda>data. bind (call_transform cls model data)
          (\<lambda>latent. ret (data, labels, latent))))
      else ret (data, labels, transformed_data))"

text \<open>Lines 74-110: the body of \<open>if evaluation['active']\<close>.\<close>

definition run_evaluation ::
  "(int \<Rightarrow> 'a list ndarray \<Rightarrow> 'z ndarray \<Rightarrow> 'l list \<Rightarrow> int \<Rightarrow> error + 'v dict) \<Rightarrow>
   ('m, 'a, 'z) model_class \<Rightarrow> 'm \<Rightarrow> bool \<Rightarrow> evaluation \<Rightarrow> string option \<Rightarrow> int \<Rightarrow>
   ('a tensor \<times> 'l) list \<Rightarrow> ('a tensor \<times> 'l) list \<Rightarrow>
   'a list ndarray \<Rightarrow> 'l list \<Rightarrow> 'z ndarray \<Rightarrow> 'v dict \<Rightarrow>
     (('m, 'a, 'l, 'z) event, 'v dict) comp" where
  "run_evaluation evaluate_space cls model supports_transform evaluation' rundir seed
       validation_dataset test_dataset data labels transformed_data result =
     (let evaluate_on' = evaluate_on evaluation' in
      bind (emit (LogInfo (''Running evaluation on '' @ evaluate_on' @ '' dataset'')))
        (\<lambda>_. bind (eval_data cls model supports_transform evaluate_on'
                     validation_dataset test_dataset data labels transformed_data)
        (\<lambda>(data, labels, latent).
           bind (if_rundir rundir
                   (\<lambda>d. emit (Savez (os_path_join d ''latents.npz'') latent labels)))
        (\<lambda>_. bind (lift (shape_at latent 1))
        (\<lambda>d1. bind (if d1 = 2
                     then if_rundir rundir
                            (\<lambda>d. emit (VisualizeLatents latent labels
                                        (os_path_join d ''latent_visualization.pdf'')))
                     else ret ())
        (\<lambda>_. bind (emit (EvaluateSpace seed data latent labels (k_cfg evaluation')))
        (\<lambda>_. bind (lift (evaluate_space seed data latent labels (k_cfg evaluation')))
        (\<lambda>ev_result.
           let prefixed_ev_result =
                 dict_update [] (map (\<lambda>(key, v). (evaluate_on' @ ''_'' @ key, v)) ev_result)
           in ret (dict_update result prefixed_ev_result)))))))))"

definition train ::
  "(int \<Rightarrow> 'a list ndarray \<Rightarrow> 'z ndarray \<Rightarrow> 'l list \<Rightarrow> int \<Rightarrow> error + 'v dict) \<Rightarrow>
   ('m, 'a, 'z) model_class \<Rightarrow> 'm \<Rightarrow>
   ('a tensor \<times> 'l) list \<Rightarrow> ('a tensor \<times> 'l) list \<Rightarrow> ('a tensor \<times> 'l) list \<Rightarrow>
   evaluation \<Rightarrow> run \<Rightarrow> int \<Rightarrow>
     (('m, 'a, 'l, 'z) event, 'v dict) comp" where
  "train evaluate_space cls model train_dataset validation_dataset test_dataset
       evaluation' run' seed =
     (let supports_transform = (transform cls \<noteq> None) in
      bind (fit_data supports_transform train_dataset test_dataset)
        (\<lambda>(data, labels). bind (emit (LogInfo ''Fitting model...''))
        (\<lambda>_. bind (call_fit_transform cls model data)
        (\<lambda>(transformed_data, model).
           let rundir = get_rundir run' in
           bind (if_rundir rundir
                   (\<lambda>d. emit (PickleDump (os_path_join d ''model.pth'') model)))
        (\<lambda>_. let result = [] in
              if active evaluation'
              then run_evaluation evaluate_space cls model supports_transform evaluation'
                     rundir seed validation_dataset test_dataset
                     data labels transformed_data result
              else ret result)))))"

section \<open>src/models/submodules.py\<close>

subsection \<open>torch\<close>

text \<open>
  \<open>x.view(*shape)\<close> on a contiguous tensor: at most one entry of the shape is \<open>-1\<close> and is
  inferred from the number of elements; a shape that does not fit raises \<open>RuntimeError\<close>.
\<close>

definition tensor_view :: "int list \<Rightarrow> 'a tensor \<Rightarrow> error + 'a tensor" where
  "tensor_view shp x =
     (let numel = int (prod_list (dims x));
          known = prod_list (filter (\<lambda>d. d \<noteq> - 1) shp)
      in if list_ex (\<lambda>d. d < - 1) shp \<or> 1 < length (filter (\<lambda>d. d = - 1) shp)
         then Inl RuntimeError
         else if list_ex (\<lambda>d. d = - 1) shp
         then (if known = 0 \<or> numel mod known \<noteq> 0 then Inl RuntimeError
               else Inr \<lparr>dims = map (\<lambda>d. nat (if d = - 1 then numel div known else d)) shp,
                         flat = flat x\<rparr>)
         else if known = numel then Inr \<lparr>dims = map nat shp, flat = flat x\<rparr>
         else Inl RuntimeError)"

text \<open>
  The parts of torch and geotorch the module constructors use. \<open>Linear i n_in n_out\<close> is
  the \<open>i\<close>-th \<open>nn.Linear(n_in, n_out)\<close> that is created (each one gets weights of its own),
  \<open>orthogonal m\<close> is \<open>m\<close> after \<open>geotorch.orthogonal(m, "weight")\<close>, and \<open>call m x\<close> is
  \<open>m(x)\<close>, which may raise.
\<close>

record ('m, 'a, 'o) torch_nn =
  Linear :: "nat \<Rightarrow> nat \<Rightarrow> nat \<Rightarrow> 'm"
  orthogonal :: "'m \<Rightarrow> 'm"
  call :: "'m \<Rightarrow> 'a tensor \<Rightarrow> error + 'o"

subsection \<open>View\<close>

record View =
  view_shape :: "int list"

definition View_forward :: "View \<Rightarrow> 'a tensor \<Rightarrow> error + 'a tensor" where
  "View_forward self x = tensor_view (view_shape self) x"

subsection \<open>OrthoProjectionModel\<close>

text \<open>\<open>"%d" % i\<close> for a natural number: its decimal digits, most significant first.\<close>

fun format_d :: "nat \<Rightarrow> string" where
  "format_d n =
     (if n < 10 then [char_of (48 + n)]
      else format_d (n div 10) @ [char_of (48 + n mod 10)])"

declare format_d.simps [simp del]

definition fc_name :: "nat \<Rightarrow> string" where
  "fc_name i = ''fc'' @ format_d i"

text \<open>
  The object: \<open>n_projections\<close>, the sub-modules registered by \<open>setattr\<close> under their
  names, and \<open>flatten\<close>. \<open>getattr\<close> of a name that was never set raises
  \<open>AttributeError\<close>.
\<close>

record 'm OrthoProjectionModel =
  n_projections :: int
  submodules :: "string \<rightharpoonup> 'm"
  flatten :: View

definition getattr :: "'m OrthoProjectionModel \<Rightarrow> string \<Rightarrow> error + 'm" where
  "getattr self name =
     (case submodules self name of None \<Rightarrow> Inl AttributeError | Some m \<Rightarrow> Inr m)"

text \<open>
  Lines 304-315. One pass of the loop sets \<open>fc<i>\<close> to a new linear module and makes its
  weight orthogonal in place; \<open>range(n_projections)\<close> is empty for a negative number.
\<close>

definition OrthoProjectionModel_init ::
  "('m, 'a, 'o) torch_nn \<Rightarrow> nat list \<Rightarrow> int \<Rightarrow> nat \<Rightarrow> 'm OrthoProjectionModel" where
  "OrthoProjectionModel_init nn input_dims n_projections' out_dim =
     (let n_input_dims = prod_list input_dims in
      \<lparr>n_projections = n_projections',
       submodules =
         fold (\<lambda>i attrs. attrs(fc_name i \<mapsto> orthogonal nn (Linear nn i n_input_dims out_dim)))
           [0..<nat n_projections'] Map.empty,
       flatten = \<lparr>view_shape = [- 1, int n_input_dims]\<rparr>\<rparr>)"

text \<open>Lines 321-328: the loop of \<open>forward\<close> over the indices that are left.\<close>

fun forward_loop ::
  "('m, 'a, 'o) torch_nn \<Rightarrow> 'm OrthoProjectionModel \<Rightarrow> 'a tensor \<Rightarrow> nat list \<Rightarrow> 'o list \<Rightarrow>
     error + 'o list" where
  "forward_loop nn self x [] outputs = Inr outputs"
| "forward_loop nn self x (i # is) outputs =
     (case getattr self (fc_name i) of
        Inl e \<Rightarrow> Inl e
      | Inr fc \<Rightarrow>
          (case call nn fc x of
             Inl e \<Rightarrow> Inl e
           | Inr output \<Rightarrow> forward_loop nn self x is (outputs @ [output])))"

definition OrthoProjectionModel_forward ::
  "('m, 'a, 'o) torch_nn \<Rightarrow> 'm OrthoProjectionModel \<Rightarrow> 'a tensor \<Rightarrow> error + 'o list" where
  "OrthoProjectionModel_forward nn self x =
     (let outputs = [] in
      case View_forward (flatten self) x of
        Inl e \<Rightarrow> Inl e
      | Inr x \<Rightarrow> forward_loop nn self x [0..<nat (n_projections self)] outputs)"

subsection \<open>nn.MSELoss\<close>

text \<open>
  The value of a loss: a real number, or NaN, which torch returns for the mean of no
  elements. The elements of tensors are real numbers here and the arithmetic is exact:
  the rounding of floating-point numbers is not modelled.
\<close>

datatype loss = Loss real | NaN

text \<open>
  \<open>torch.broadcast_tensors\<close>. Two shapes are aligned at their last dimension, the shorter
  one filled up with ones in front; two aligned dimensions must be equal or one of them
  must be 1, and the broadcast dimension is the other one.
\<close>

definition pad_dims :: "nat \<Rightarrow> nat list \<Rightarrow> nat list" where
  "pad_dims n s = replicate (n - length s) 1 @ s"

fun broadcast_dims :: "nat list \<Rightarrow> nat list \<Rightarrow> nat list option" where
  "broadcast_dims [] [] = Some []"
| "broadcast_dims (a # as) (b # bs) =
     (case broadcast_dims as bs of
        None \<Rightarrow> None
      | Some cs \<Rightarrow>
          if a = b then Some (a # cs)
          else if a = 1 then Some (b # cs)
          else if b = 1 then Some (a # cs)
          else None)"
| "broadcast_dims _ _ = None"

definition broadcast_shapes :: "nat list \<Rightarrow> nat list \<Rightarrow> nat list option" where
  "broadcast_shapes s t =
     (let n = max (length s) (length t) in broadcast_dims (pad_dims n s) (pad_dims n t))"

text \<open>
  The elements, in row-major order, of a tensor of shape \<open>ds\<close> expanded to the shape \<open>es\<close>
  it broadcasts to: along a dimension of size 1 that becomes \<open>e\<close>, the one slice is
  repeated \<open>e\<close> times.
\<close>

fun expand :: "nat list \<Rightarrow> nat list \<Rightarrow> 'a list \<Rightarrow> 'a list" where
  "expand (d # ds) (e # es) xs =
     (let n = prod_list ds;
          slices = concat (map (\<lambda>i. expand ds es (take n (drop (i * n) xs))) [0..<d])
      in if d = e then slices else concat (replicate e slices))"
| "expand _ _ xs = xs"

text \<open>The mean of the squared differences of two lists of elements.\<close>

definition mean_squared :: "real list \<Rightarrow> real list \<Rightarrow> loss" where
  "mean_squared xs ys =
     (if xs = [] then NaN
      else Loss ((\<Sum>(a, b) \<leftarrow> zip xs ys. (a - b)\<^sup>2) / real (length xs)))"

text \<open>
  \<open>nn.MSELoss()(input, target)\<close> with the default reduction \<open>'mean'\<close>: the two tensors are
  broadcast to one shape (\<open>RuntimeError\<close> when they cannot be), and the result is the mean,
  over all elements, of the squared differences.
\<close>

definition MSELoss :: "real tensor \<Rightarrow> real tensor \<Rightarrow> error + loss" where
  "MSELoss input target =
     (case broadcast_shapes (dims input) (dims target) of
        None \<Rightarrow> Inl RuntimeError
      | Some s \<Rightarrow>
          Inr (mean_squared
                 (expand (pad_dims (length s) (dims input)) s (flat input))
                 (expand (pad_dims (length s) (dims target)) s (flat target))))"

subsection \<open>The autoencoders that are not variational\<close>

text \<open>
  Every one of the nine classes keeps three attributes: the encoder and the decoder
  network, built from torch layers in its constructor, and \<open>reconst_error\<close>, which every
  constructor sets to \<open>nn.MSELoss()\<close>. Calling a network may raise.
\<close>

datatype ae_class =
    ConvolutionalAutoencoder
  | ConvolutionalAutoencoder_2D
  | DeepAE
  | LinearAE
  | LinearAEOrtho
  | MLPAutoencoder
  | MLPAutoencoder_Spheres
  | LinearAE_Spheres
  | LinearAEOrtho_Spheres

record 'z autoencoder =
  encoder :: "real tensor \<Rightarrow> error + 'z"
  decoder :: "'z \<Rightarrow> error + real tensor"
  reconst_error :: "real tensor \<Rightarrow> real tensor \<Rightarrow> error + loss"

text \<open>
  The constructors, with the two networks they build as arguments; lines 36, 113, 172,
  211, 255, 351, 408, 452 and 487 set \<open>self.reconst_error = nn.MSELoss()\<close>.
\<close>

fun ae_init ::
  "ae_class \<Rightarrow> (real tensor \<Rightarrow> error + 'z) \<Rightarrow> ('z \<Rightarrow> error + real tensor) \<Rightarrow> 'z autoencoder" where
  "ae_init ConvolutionalAutoencoder enc dec =
     \<lparr>encoder = enc, decoder = dec, reconst_error = MSELoss\<rparr>"
| "ae_init ConvolutionalAutoencoder_2D enc dec =
     \<lparr>encoder = enc, decoder = dec, reconst_error = MSELoss\<rparr>"
| "ae_init DeepAE enc dec =
     \<lparr>encoder = enc, decoder = dec, reconst_error = MSELoss\<rparr>"
| "ae_init LinearAE enc dec =
     \<lparr>encoder = enc, decoder = dec, reconst_error = MSELoss\<rparr>"
| "ae_init LinearAEOrtho enc dec =
     \<lparr>encoder = enc, decoder = dec, reconst_error = MSELoss\<rparr>"
| "ae_init MLPAutoencoder enc dec =
     \<lparr>encoder = enc, decoder = dec, reconst_error = MSELoss\<rparr>"
| "ae_init MLPAutoencoder_Spheres enc dec =
     \<lparr>encoder = enc, decoder = dec, reconst_error = MSELoss\<rparr>"
| "ae_init LinearAE_Spheres enc dec =
     \<lparr>encoder = enc, decoder = dec, reconst_error = MSELoss\<rparr>"
| "ae_init LinearAEOrtho_Spheres enc dec =
     \<lparr>encoder = enc, decoder = dec, reconst_error = MSELoss\<rparr>"

fun encode :: "ae_class \<Rightarrow> 'z autoencoder \<Rightarrow> real tensor \<Rightarrow> error + 'z" where
  "encode ConvolutionalAutoencoder self x = encoder self x"
| "encode ConvolutionalAutoencoder_2D self x = encoder self x"
| "encode DeepAE self x = encoder self x"
| "encode LinearAE self x = encoder self x"
| "encode LinearAEOrtho self x = encoder self x"
| "encode MLPAutoencoder self x = encoder self x"
| "encode MLPAutoencoder_Spheres self x = encoder self x"
| "encode LinearAE_Spheres self x = encoder self x"
| "encode LinearAEOrtho_Spheres self x = encoder self x"

fun decode :: "ae_class \<Rightarrow> 'z autoencoder \<Rightarrow> 'z \<Rightarrow> error + real tensor" where
  "decode ConvolutionalAutoencoder self z = decoder self z"
| "decode ConvolutionalAutoencoder_2D self z = decoder self z"
| "decode DeepAE self z = decoder self z"
| "decode LinearAE self z = decoder self z"
| "decode LinearAEOrtho self z = decoder self z"
| "decode MLPAutoencoder self z = decoder self z"
| "decode MLPAutoencoder_Spheres self z = decoder self z"
| "decode LinearAE_Spheres self z = decoder self z"
| "decode LinearAEOrtho_Spheres self z = decoder self z"

text \<open>
  The body the nine \<open>forward\<close> methods share word for word (lines 56-59, 133-136,
  192-195, 231-234, 275-278, 380-383, 437-440, 472-475, 507-510), over the \<open>encode\<close> and
  \<open>decode\<close> of the class it stands in.
\<close>

definition forward_body ::
  "('z autoencoder \<Rightarrow> real tensor \<Rightarrow> error + 'z) \<Rightarrow>
   ('z autoencoder \<Rightarrow> 'z \<Rightarrow> error + real tensor) \<Rightarrow>
   'z autoencoder \<Rightarrow> real tensor \<Rightarrow> error + (loss \<times> loss dict)" where
  "forward_body encode' decode' self x =
     (case encode' self x of
        Inl e \<Rightarrow> Inl e
      | Inr latent \<Rightarrow>
          (case decode' self latent of
             Inl e \<Rightarrow> Inl e
           | Inr x_reconst \<Rightarrow>
               (case reconst_error self x x_reconst of
                  Inl e \<Rightarrow> Inl e
                | Inr reconst_error' \<Rightarrow>
                    Inr (reconst_error', dict_setitem [] ''reconstruction_error'' reconst_error'))))"

fun forward :: "ae_class \<Rightarrow> 'z autoencoder \<Rightarrow> real tensor \<Rightarrow> error + (loss \<times> loss dict)" where
  "forward ConvolutionalAutoencoder self x =
     forward_body (encode ConvolutionalAutoencoder) (decode ConvolutionalAutoencoder) self x"
| "forward ConvolutionalAutoencoder_2D self x =
     forward_body (encode ConvolutionalAutoencoder_2D) (decode ConvolutionalAutoencoder_2D) self x"
| "forward DeepAE self x =
     forward_body (encode DeepAE) (decode DeepAE) self x"
| "forward LinearAE self x =
     forward_body (encode LinearAE) (decode LinearAE) self x"
| "forward LinearAEOrtho self x =
     forward_body (encode LinearAEOrtho) (decode LinearAEOrtho) self x"
| "forward MLPAutoencoder self x =
     forward_body (encode MLPAutoencoder) (decode MLPAutoencoder) self x"
| "forward MLPAutoencoder_Spheres self x =
     forward_body (encode MLPAutoencoder_Spheres) (decode MLPAutoencoder_Spheres) self x"
| "forward LinearAE_Spheres self x =
     forward_body (encode LinearAE_Spheres) (decode LinearAE_Spheres) self x"
| "forward LinearAEOrtho_Spheres self x =
     forward_body (encode LinearAEOrtho_Spheres) (decode LinearAEOrtho_Spheres) self x"

section \<open>Notions the statements use\<close>

text \<open>
  What \<open>train\<close> makes of a dataset partition before it hands it to the model or to the
  evaluator: \<open>data, labels = zip(*dataset)\<close>, then
  \<open>data = np.stack(data).reshape(len(data), -1)\<close> and \<open>labels = np.array(labels)\<close>
  (lines 50 or 55 with 57-58, and lines 80 or 83 with 84-85).
\<close>

definition arrays_of :: "('a tensor \<times> 'l) list \<Rightarrow> error + ('a list ndarray \<times> 'l list)" where
  "arrays_of dataset =
     (case zip_star dataset of
        Inl e \<Rightarrow> Inl e
      | Inr (data, labels) \<Rightarrow>
          (case np_stack_reshape data of
             Inl e \<Rightarrow> Inl e
           | Inr data \<Rightarrow> Inr (data, labels)))"

text \<open>Kinds of events.\<close>

fun is_log :: "('m, 'a, 'l, 'z) event \<Rightarrow> bool" where
  "is_log (LogWarn _) = True"
| "is_log (LogInfo _) = True"
| "is_log _ = False"

fun fitting_only :: "('m, 'a, 'l, 'z) event \<Rightarrow> bool" where
  "fitting_only (LogWarn _) = True"
| "fitting_only (LogInfo _) = True"
| "fitting_only (CallFitTransform _) = True"
| "fitting_only (PickleDump _ _) = True"
| "fitting_only _ = False"

fun writes_file :: "('m, 'a, 'l, 'z) event \<Rightarrow> bool" where
  "writes_file (PickleDump _ _) = True"
| "writes_file (Savez _ _ _) = True"
| "writes_file (VisualizeLatents _ _ _) = True"
| "writes_file _ = False"

fun is_visualization :: "('m, 'a, 'l, 'z) event \<Rightarrow> bool" where
  "is_visualization (VisualizeLatents _ _ _) = True"
| "is_visualization _ = False"

text \<open>The inverse of \<open>format_d\<close>: the number a string of decimal digits denotes.\<close>

definition parse_d :: "string \<Rightarrow> nat" where
  "parse_d s = foldl (\<lambda>a c. 10 * a + (of_char c - 48)) 0 s"

subsection \<open>Concrete inputs\<close>

text \<open>
  Three small partitions of samples with three features, a model class whose embedding
  keeps the first two features of every row (the fitted model is the one marked
  \<open>True\<close>), once with and once without \<open>transform\<close>, and an evaluator that reports the
  number of points as its one metric.
\<close>

definition ex_sample :: "int list \<Rightarrow> int tensor" where
  "ex_sample xs = \<lparr>dims = [length xs], flat = xs\<rparr>"

definition ex_train :: "(int tensor \<times> nat) list" where
  "ex_train = [(ex_sample [1, 2, 3], 0), (ex_sample [4, 5, 6], 1), (ex_sample [7, 8, 9], 0)]"

definition ex_validation :: "(int tensor \<times> nat) list" where
  "ex_validation = [(ex_sample [10, 11, 12], 1)]"

definition ex_test :: "(int tensor \<times> nat) list" where
  "ex_test = [(ex_sample [13, 14, 15], 0), (ex_sample [16, 17, 18], 1)]"

definition first_two :: "int list ndarray \<Rightarrow> int list ndarray" where
  "first_two X = \<lparr>shape = [length (items X), 2], items = map (take 2) (items X)\<rparr>"

definition ex_fit_only :: "(bool, int, int list) model_class" where
  "ex_fit_only = \<lparr>fit_transform = Some (\<lambda>m X. Inr (first_two X, True)), transform = None\<rparr>"

definition ex_with_transform :: "(bool, int, int list) model_class" where
  "ex_with_transform =
     \<lparr>fit_transform = Some (\<lambda>m X. Inr (first_two X, True)),
      transform = Some (\<lambda>m X. Inr (first_two X))\<rparr>"

definition ex_no_methods :: "(bool, int, int list) model_class" where
  "ex_no_methods = \<lparr>fit_transform = None, transform = None\<rparr>"

definition ex_evaluate_space ::
  "int \<Rightarrow> int list ndarray \<Rightarrow> int list ndarray \<Rightarrow> nat list \<Rightarrow> int \<Rightarrow> error + nat dict" where
  "ex_evaluate_space seed X Y labels K = Inr [(''n_points'', length (items X))]"

definition ex_rundir :: run where
  "ex_rundir = \<lparr>observers = [\<lparr>dir = Some ''runs/1''\<rparr>]\<rparr>"

definition ex_no_observers :: run where
  "ex_no_observers = \<lparr>observers = []\<rparr>"

definition cfg_inactive :: evaluation where
  "cfg_inactive = \<lparr>active = False, k_cfg = 15, evaluate_on = ''test''\<rparr>"

definition cfg_test :: evaluation where
  "cfg_test = \<lparr>active = True, k_cfg = 15, evaluate_on = ''test''\<rparr>"

definition cfg_validation :: evaluation where
  "cfg_validation = \<lparr>active = True, k_cfg = 15, evaluate_on = ''validation''\<rparr>"

text \<open>
  For the autoencoders: an encoder that keeps the first two elements of a row and a
  decoder that appends a zero.
\<close>

definition ex_encoder :: "real tensor \<Rightarrow> error + real tensor" where
  "ex_encoder x = Inr \<lparr>dims = [1, 2], flat = take 2 (flat x)\<rparr>"

definition ex_decoder :: "real tensor \<Rightarrow> error + real tensor" where
  "ex_decoder z = Inr \<lparr>dims = [1, 3], flat = flat z @ [0]\<rparr>"

definition ex_nn :: "(nat \<times> bool, int, (nat \<times> bool) \<times> int tensor) torch_nn" where
  "ex_nn =
     \<lparr>Linear = (\<lambda>i n_in n_out. (i, False)),
      orthogonal = (\<lambda>m. (fst m, True)),
      call = (\<lambda>m x. Inr (m, x))\<rparr>"

section \<open>The computations, step by step\<close>

lemma fst_bind: "fst (bind m f) = fst m @ (case snd m of Inl e \<Rightarrow> [] | Inr x \<Rightarrow> fst (f x))"
  by (cases m; cases "snd m") (auto simp: bind_def split: prod.splits)

lemma snd_bind: "snd (bind m f) = (case snd m of Inl e \<Rightarrow> Inl e | Inr x \<Rightarrow> snd (f x))"
  by (cases m; cases "snd m") (auto simp: bind_def split: prod.splits)

lemma fst_ret [simp]: "fst (ret x) = []" and snd_ret [simp]: "snd (ret x) = Inr x"
  by (simp_all add: ret_def)

lemma fst_lift [simp]: "fst (lift r) = []" and snd_lift [simp]: "snd (lift r) = r"
  by (simp_all add: lift_def)

lemma fst_emit [simp]: "fst (emit ev) = [ev]" and snd_emit [simp]: "snd (emit ev) = Inr ()"
  by (simp_all add: emit_def)

lemma fst_if_rundir:
  "fst (if_rundir rundir body) = (if truthy rundir then fst (body (the rundir)) else [])"
  by (simp add: if_rundir_def truthy_def split: option.splits)

lemma snd_if_rundir_emit [simp]: "snd (if_rundir rundir (\<lambda>d. emit (g d))) = Inr ()"
  by (simp add: if_rundir_def split: option.splits)

lemma fst_fit_data:
  "fst (fit_data st tr te) =
     (if st then []
      else [LogWarn ''Model does not support separate training and prediction.'',
            LogWarn ''Directly running on test dataset!''])"
  by (auto simp: fit_data_def fst_bind snd_bind split: sum.splits prod.splits)

lemma snd_fit_data: "snd (fit_data st tr te) = arrays_of (if st then tr else te)"
  by (auto simp: fit_data_def arrays_of_def fst_bind snd_bind split: sum.splits prod.splits)

lemma fst_call_fit_transform:
  "fst (call_fit_transform cls m X) = (if fit_transform cls = None then [] else [CallFitTransform X])"
  by (auto simp: call_fit_transform_def fst_bind snd_bind split: option.splits)

lemma snd_call_fit_transform:
  "snd (call_fit_transform cls m X) =
     (case fit_transform cls of None \<Rightarrow> Inl AttributeError | Some f \<Rightarrow> f m X)"
  by (auto simp: call_fit_transform_def fst_bind snd_bind split: option.splits)

lemma fst_call_transform:
  "fst (call_transform cls m X) = (if transform cls = None then [] else [CallTransform X])"
  by (auto simp: call_transform_def fst_bind snd_bind split: option.splits)

lemma snd_call_transform:
  "snd (call_transform cls m X) =
     (case transform cls of None \<Rightarrow> Inl AttributeError | Some f \<Rightarrow> f m X)"
  by (auto simp: call_transform_def fst_bind snd_bind split: option.splits)

lemmas comp_simps =
  fst_bind snd_bind fst_if_rundir fst_fit_data snd_fit_data
  fst_call_fit_transform snd_call_fit_transform fst_call_transform snd_call_transform

lemma snd_eval_data:
  "snd (eval_data cls m st ev_on va te X l Y) =
     (if st then
        (case arrays_of (if ev_on = ''validation'' then va else te) of
           Inl e \<Rightarrow> Inl e
         | Inr (X', l') \<Rightarrow>
             (case transform cls of
                None \<Rightarrow> Inl AttributeError
              | Some g \<Rightarrow> (case g m X' of Inl e \<Rightarrow> Inl e | Inr Y' \<Rightarrow> Inr (X', l', Y')))) 
      else Inr (X, l, Y))"
  by (auto simp: eval_data_def arrays_of_def comp_simps split: sum.splits prod.splits option.splits)

lemma fst_eval_data:
  "fst (eval_data cls m st ev_on va te X l Y) =
     (if st then
        (case arrays_of (if ev_on = ''validation'' then va else te) of
           Inl e \<Rightarrow> []
         | Inr (X', l') \<Rightarrow> if transform cls = None then [] else [CallTransform X'])
      else [])"
  by (auto simp: eval_data_def arrays_of_def comp_simps split: sum.splits prod.splits option.splits)

lemma fst_run_evaluation:
  "fst (run_evaluation es cls m st ev rundir seed va te X l Y result) =
     LogInfo (''Running evaluation on '' @ evaluate_on ev @ '' dataset'')
     # fst (eval_data cls m st (evaluate_on ev) va te X l Y)
     @ (case snd (eval_data cls m st (evaluate_on ev) va te X l Y) of
          Inl e \<Rightarrow> []
        | Inr (X', l', Y') \<Rightarrow>
            (if truthy rundir then [Savez (os_path_join (the rundir) ''latents.npz'') Y' l'] else [])
            @ (case shape_at Y' 1 of
                 Inl e \<Rightarrow> []
               | Inr d1 \<Rightarrow>
                   (if d1 = 2 \<and> truthy rundir
                    then [VisualizeLatents Y' l' (os_path_join (the rundir) ''latent_visualization.pdf'')]
                    else [])
                   @ [EvaluateSpace seed X' Y' l' (k_cfg ev)]))"
  by (auto simp: run_evaluation_def Let_def fst_bind snd_bind fst_if_rundir
           split: sum.splits prod.splits)

lemma snd_run_evaluation:
  "snd (run_evaluation es cls m st ev rundir seed va te X l Y result) =
     (case snd (eval_data cls m st (evaluate_on ev) va te X l Y) of
        Inl e \<Rightarrow> Inl e
      | Inr (X', l', Y') \<Rightarrow>
          (case shape_at Y' 1 of
             Inl e \<Rightarrow> Inl e
           | Inr d1 \<Rightarrow>
               (case es seed X' Y' l' (k_cfg ev) of
                  Inl e \<Rightarrow> Inl e
                | Inr ev_result \<Rightarrow>
                    Inr (dict_update result
                          (dict_update [] (map (\<lambda>(key, v). (evaluate_on ev @ ''_'' @ key, v)) ev_result))))))"
  by (auto simp: run_evaluation_def Let_def fst_bind snd_bind fst_if_rundir
           split: sum.splits prod.splits)

lemma fst_train:
  "fst (train es cls model tr va te ev run' seed) =
     fst (fit_data (transform cls \<noteq> None) tr te)
     @ (case arrays_of (if transform cls \<noteq> None then tr else te) of
          Inl e \<Rightarrow> []
        | Inr (X, l) \<Rightarrow>
            LogInfo ''Fitting model...''
            # (case fit_transform cls of
                 None \<Rightarrow> []
               | Some f \<Rightarrow>
                   CallFitTransform X
                   # (case f model X of
                        Inl e \<Rightarrow> []
                      | Inr (Y, m) \<Rightarrow>
                          (if truthy (get_rundir run')
                           then [PickleDump (os_path_join (the (get_rundir run')) ''model.pth'') m]
                           else [])
                          @ (if active ev
                             then fst (run_evaluation es cls m (transform cls \<noteq> None) ev
                                         (get_rundir run') seed va te X l Y [])
                             else []))))"
  by (auto simp: train_def Let_def comp_simps split: sum.splits prod.splits option.splits)

lemma snd_train:
  "snd (train es cls model tr va te ev run' seed) =
     (case arrays_of (if transform cls \<noteq> None then tr else te) of
        Inl e \<Rightarrow> Inl e
      | Inr (X, l) \<Rightarrow>
          (case fit_transform cls of
             None \<Rightarrow> Inl AttributeError
           | Some f \<Rightarrow>
               (case f model X of
                  Inl e \<Rightarrow> Inl e
                | Inr (Y, m) \<Rightarrow>
                    if active ev
                    then snd (run_evaluation es cls m (transform cls \<noteq> None) ev
                                (get_rundir run') seed va te X l Y [])
                    else Inr [])))"
  by (auto simp: train_def Let_def comp_simps split: sum.splits prod.splits option.splits)

lemmas train_simps =
  fst_train snd_train fst_run_evaluation snd_run_evaluation fst_eval_data snd_eval_data
  fst_fit_data

lemma snd_eval_data_Inr:
  "snd (eval_data cls m st ev_on va te X0 l0 Y0) = Inr (X, l, Y) \<longleftrightarrow>
     (if st
      then arrays_of (if ev_on = ''validation'' then va else te) = Inr (X, l)
           \<and> (\<exists>g. transform cls = Some g \<and> g m X = Inr Y)
      else X = X0 \<and> l = l0 \<and> Y = Y0)"
proof (cases st)
  case False
  then show ?thesis by (auto simp: snd_eval_data)
next
  case True
  show ?thesis
  proof (cases "arrays_of (if ev_on = ''validation'' then va else te)")
    case (Inl e)
    with True show ?thesis by (simp add: snd_eval_data)
  next
    case (Inr p)
    obtain X' l' where p: "p = (X', l')" by (cases p)
    show ?thesis
    proof (cases "transform cls")
      case None
      with True Inr p show ?thesis by (simp add: snd_eval_data)
    next
      case (Some g)
      with True Inr p show ?thesis
        by (cases "g m X'") (auto simp: snd_eval_data)
    qed
  qed
qed

lemma fst_eval_data_Inr:
  "snd (eval_data cls m st ev_on va te X0 l0 Y0) = Inr (X, l, Y) \<Longrightarrow>
   fst (eval_data cls m st ev_on va te X0 l0 Y0) = (if st then [CallTransform X] else [])"
  by (cases st) (auto simp: snd_eval_data_Inr fst_eval_data)

lemma fst_eval_data_subset:
  "set (fst (eval_data cls m st ev_on va te X0 l0 Y0)) \<subseteq> range CallTransform"
  by (cases st; cases "arrays_of (if ev_on = ''validation'' then va else te)")
     (auto simp: fst_eval_data)


text \<open>
  Every run of \<open>train\<close> takes one of eight paths: the events and the outcome of each.
\<close>

lemma train_cases [case_names stack_raises no_fit_transform fit_raises inactive
    eval_data_raises no_second_dim evaluator_raises returns]:
  fixes es cls model tr va te ev run' seed
  defines "T \<equiv> train es cls model tr va te ev run' seed"
    and "st \<equiv> transform cls \<noteq> None"
    and "rundir \<equiv> get_rundir run'"
  defines "W \<equiv> fst (fit_data st tr te)"
    and "P \<equiv> \<lambda>m. if truthy rundir then [PickleDump (os_path_join (the rundir) ''model.pth'') m] else []"
    and "S \<equiv> \<lambda>Y l. if truthy rundir then [Savez (os_path_join (the rundir) ''latents.npz'') Y l] else []"
    and "V \<equiv> \<lambda>Y l d1. if d1 = 2 \<and> truthy rundir
               then [VisualizeLatents Y l (os_path_join (the rundir) ''latent_visualization.pdf'')]
               else []"
    and "R \<equiv> LogInfo (''Running evaluation on '' @ evaluate_on ev @ '' dataset'')"
  obtains
    (stack_raises) e where
      "arrays_of (if st then tr else te) = Inl e"
      "T = (W, Inl e)"
  | (no_fit_transform) X0 l0 where
      "arrays_of (if st then tr else te) = Inr (X0, l0)"
      "fit_transform cls = None"
      "T = (W @ [LogInfo ''Fitting model...''], Inl AttributeError)"
  | (fit_raises) X0 l0 f e where
      "arrays_of (if st then tr else te) = Inr (X0, l0)"
      "fit_transform cls = Some f" "f model X0 = Inl e"
      "T = (W @ [LogInfo ''Fitting model...'', CallFitTransform X0], Inl e)"
  | (inactive) X0 l0 f Y0 m where
      "arrays_of (if st then tr else te) = Inr (X0, l0)"
      "fit_transform cls = Some f" "f model X0 = Inr (Y0, m)"
      "\<not> active ev"
      "T = (W @ [LogInfo ''Fitting model...'', CallFitTransform X0] @ P m, Inr [])"
  | (eval_data_raises) X0 l0 f Y0 m e where
      "arrays_of (if st then tr else te) = Inr (X0, l0)"
      "fit_transform cls = Some f" "f model X0 = Inr (Y0, m)"
      "active ev"
      "snd (eval_data cls m st (evaluate_on ev) va te X0 l0 Y0) = Inl e"
      "T = (W @ [LogInfo ''Fitting model...'', CallFitTransform X0] @ P m
              @ R # fst (eval_data cls m st (evaluate_on ev) va te X0 l0 Y0), Inl e)"
  | (no_second_dim) X0 l0 f Y0 m X l Y e where
      "arrays_of (if st then tr else te) = Inr (X0, l0)"
      "fit_transform cls = Some f" "f model X0 = Inr (Y0, m)"
      "active ev"
      "snd (eval_data cls m st (evaluate_on ev) va te X0 l0 Y0) = Inr (X, l, Y)"
      "shape_at Y 1 = Inl e"
      "T = (W @ [LogInfo ''Fitting model...'', CallFitTransform X0] @ P m
              @ R # (if st then [CallTransform X] else []) @ S Y l, Inl e)"
  | (evaluator_raises) X0 l0 f Y0 m X l Y d1 e where
      "arrays_of (if st then tr else te) = Inr (X0, l0)"
      "fit_transform cls = Some f" "f model X0 = Inr (Y0, m)"
      "active ev"
      "snd (eval_data cls m st (evaluate_on ev) va te X0 l0 Y0) = Inr (X, l, Y)"
      "shape_at Y 1 = Inr d1"
      "es seed X Y l (k_cfg ev) = Inl e"
      "T = (W @ [LogInfo ''Fitting model...'', CallFitTransform X0] @ P m
              @ R # (if st then [CallTransform X] else []) @ S Y l @ V Y l d1
              @ [EvaluateSpace seed X Y l (k_cfg ev)], Inl e)"
  | (returns) X0 l0 f Y0 m X l Y d1 ev_result where
      "arrays_of (if st then tr else te) = Inr (X0, l0)"
      "fit_transform cls = Some f" "f model X0 = Inr (Y0, m)"
      "active ev"
      "snd (eval_data cls m st (evaluate_on ev) va te X0 l0 Y0) = Inr (X, l, Y)"
      "shape_at Y 1 = Inr d1"
      "es seed X Y l (k_cfg ev) = Inr ev_result"
      "T = (W @ [LogInfo ''Fitting model...'', CallFitTransform X0] @ P m
              @ R # (if st then [CallTransform X] else []) @ S Y l @ V Y l d1
              @ [EvaluateSpace seed X Y l (k_cfg ev)],
            Inr (dict_update []
                  (dict_update [] (map (\<lambda>(key, v). (evaluate_on ev @ ''_'' @ key, v)) ev_result))))"
proof (cases "arrays_of (if st then tr else te)")
  case (Inl e)
  then have "T = (W, Inl e)"
    by (simp add: prod_eq_iff T_def W_def st_def fst_train snd_train)
  with Inl show ?thesis by (rule stack_raises)
next
  case (Inr p)
  obtain X0 l0 where a: "arrays_of (if st then tr else te) = Inr (X0, l0)"
    using Inr by (cases p) simp
  show ?thesis
  proof (cases "fit_transform cls")
    case None
    with a have "T = (W @ [LogInfo ''Fitting model...''], Inl AttributeError)"
      by (simp add: prod_eq_iff T_def W_def st_def fst_train snd_train)
    with a None show ?thesis by (rule no_fit_transform)
  next
    case (Some f)
    show ?thesis
    proof (cases "f model X0")
      case (Inl e)
      with a Some have "T = (W @ [LogInfo ''Fitting model...'', CallFitTransform X0], Inl e)"
        by (simp add: prod_eq_iff T_def W_def st_def fst_train snd_train)
      with a Some Inl show ?thesis by (rule fit_raises)
    next
      case (Inr q)
      obtain Y0 m where b: "f model X0 = Inr (Y0, m)"
        using Inr by (cases q) simp
      show ?thesis
      proof (cases "active ev")
        case False
        with a Some b
        have "T = (W @ [LogInfo ''Fitting model...'', CallFitTransform X0] @ P m, Inr [])"
          by (simp add: prod_eq_iff T_def W_def P_def st_def rundir_def fst_train snd_train)
        with a Some b False show ?thesis by (rule inactive)
      next
        case True
        let ?E = "eval_data cls m st (evaluate_on ev) va te X0 l0 Y0"
        show ?thesis
        proof (cases "snd ?E")
          case (Inl e)
          with a Some b True
          have "T = (W @ [LogInfo ''Fitting model...'', CallFitTransform X0] @ P m @ R # fst ?E, Inl e)"
            by (simp add: prod_eq_iff T_def W_def P_def R_def st_def rundir_def fst_train snd_train
                  fst_bind snd_bind run_evaluation_def Let_def)
          with a Some b True Inl show ?thesis by (rule eval_data_raises)
        next
          case (Inr r)
          obtain X l Y where c: "snd ?E = Inr (X, l, Y)"
            using Inr by (cases r) simp
          then have c': "fst ?E = (if st then [CallTransform X] else [])"
            by (rule fst_eval_data_Inr)
          show ?thesis
          proof (cases "shape_at Y 1")
            case (Inl e)
            with a Some b True c c'
            have "T = (W @ [LogInfo ''Fitting model...'', CallFitTransform X0] @ P m
              @ R # (if st then [CallTransform X] else []) @ S Y l, Inl e)"
              by (simp add: prod_eq_iff T_def W_def P_def R_def S_def st_def rundir_def
                    fst_train snd_train fst_bind snd_bind run_evaluation_def fst_if_rundir Let_def)
            with a Some b True c Inl show ?thesis by (rule no_second_dim)
          next
            case (Inr d1)
            note d = Inr
            show ?thesis
            proof (cases "es seed X Y l (k_cfg ev)")
              case (Inl e)
              with a Some b True c c' d
              have "T = (W @ [LogInfo ''Fitting model...'', CallFitTransform X0] @ P m
                @ R # (if st then [CallTransform X] else []) @ S Y l @ V Y l d1
                @ [EvaluateSpace seed X Y l (k_cfg ev)], Inl e)"
                by (simp add: prod_eq_iff T_def W_def P_def R_def S_def V_def st_def rundir_def
                      fst_train snd_train fst_bind snd_bind run_evaluation_def fst_if_rundir Let_def)
              with a Some b True c d Inl show ?thesis by (rule evaluator_raises)
            next
              case (Inr ev_result)
              with a Some b True c c' d
              have "T = (W @ [LogInfo ''Fitting model...'', CallFitTransform X0] @ P m
                @ R # (if st then [CallTransform X] else []) @ S Y l @ V Y l d1
                @ [EvaluateSpace seed X Y l (k_cfg ev)],
                 Inr (dict_update []
                  (dict_update [] (map (\<lambda>(key, v). (evaluate_on ev @ ''_'' @ key, v)) ev_result))))"
                by (simp add: prod_eq_iff T_def W_def P_def R_def S_def V_def st_def rundir_def
                      fst_train snd_train fst_bind snd_bind run_evaluation_def fst_if_rundir Let_def)
              with a Some b True c d Inr show ?thesis by (rule returns)
            qed
          qed
        qed
      qed
    qed
  qed
qed


lemma arrays_of_lengths:
  "arrays_of ds = Inr (X, l) \<Longrightarrow> length (items X) = length ds \<and> length l = length ds"
  by (cases ds) (auto simp: arrays_of_def zip_star_def np_stack_reshape_def split: if_splits)

lemmas train_paths =
  train_cases [where es = evaluate_space and cls = cls and model = model
    and tr = train_dataset and va = validation_dataset and te = test_dataset
    and ev = evaluation' and run' = run' and seed = seed]
  for evaluate_space cls model train_dataset validation_dataset test_dataset evaluation' run' seed

lemma filter_eval_data:
  "filter (\<lambda>ev. \<not> writes_file ev) (fst (eval_data cls m st ev_on va te X0 l0 Y0))
     = fst (eval_data cls m st ev_on va te X0 l0 Y0)"
  using fst_eval_data_subset [of cls m st ev_on va te X0 l0 Y0]
  by (auto simp: filter_id_conv)

subsection \<open>Names of the sub-modules\<close>

lemma parse_d_snoc: "parse_d (s @ [c]) = 10 * parse_d s + (of_char c - 48)"
  by (simp add: parse_d_def)

lemma parse_d_digit: "d < 10 \<Longrightarrow> parse_d [char_of (48 + d)] = (d :: nat)"
  by (simp add: parse_d_def)

lemma parse_format_d: "parse_d (format_d n) = n"
proof (induction n rule: format_d.induct)
  case (1 n)
  show ?case
  proof (cases "n < 10")
    case True
    then show ?thesis
      by (subst format_d.simps) (simp add: parse_d_digit)
  next
    case False
    with 1 have "parse_d (format_d (n div 10)) = n div 10"
      by simp
    with False show ?thesis
      by (subst format_d.simps) (simp add: parse_d_snoc)
  qed
qed

lemma format_d_inj: "format_d i = format_d j \<Longrightarrow> i = j"
  by (metis parse_format_d)

lemma fc_name_eq_iff [simp]: "fc_name i = fc_name j \<longleftrightarrow> i = j"
  by (auto simp: fc_name_def dest: format_d_inj)

lemma fold_setattr:
  "fold (\<lambda>i attrs. attrs(fc_name i \<mapsto> g i)) [0..<n] Map.empty (fc_name i)
     = (if i < n then Some (g i) else None)"
  by (induction n) auto

lemma getattr_init:
  "getattr (OrthoProjectionModel_init nn input_dims n out_dim) (fc_name i)
     = (if i < nat n then Inr (orthogonal nn (Linear nn i (prod_list input_dims) out_dim))
        else Inl AttributeError)"
  by (simp add: getattr_def OrthoProjectionModel_init_def Let_def fold_setattr)

lemma forward_loop_Inr:
  "forward_loop nn self x is acc = Inr outputs \<longleftrightarrow>
     (\<exists>ys. outputs = acc @ ys \<and> length ys = length is
        \<and> (\<forall>j < length is. \<exists>fc. getattr self (fc_name (is ! j)) = Inr fc
                                  \<and> call nn fc x = Inr (ys ! j)))"
proof (induction "is" arbitrary: acc)
  case Nil
  then show ?case by auto
next
  case (Cons i "is")
  show ?case
  proof (cases "getattr self (fc_name i)")
    case (Inl e)
    then show ?thesis by auto
  next
    case (Inr fc)
    note fc = Inr
    show ?thesis
    proof (cases "call nn fc x")
      case (Inl e)
      with fc show ?thesis by auto
    next
      case (Inr y)
      have "forward_loop nn self x (i # is) acc = forward_loop nn self x is (acc @ [y])"
        using fc Inr by simp
      also have "\<dots> = Inr outputs \<longleftrightarrow>
        (\<exists>ys. outputs = (acc @ [y]) @ ys \<and> length ys = length is
          \<and> (\<forall>j < length is. \<exists>fc. getattr self (fc_name (is ! j)) = Inr fc
                                  \<and> call nn fc x = Inr (ys ! j)))"
        by (rule Cons.IH)
      also have "\<dots> \<longleftrightarrow>
        (\<exists>ys. outputs = acc @ ys \<and> length ys = length (i # is)
          \<and> (\<forall>j < length (i # is). \<exists>fc. getattr self (fc_name ((i # is) ! j)) = Inr fc
                                  \<and> call nn fc x = Inr (ys ! j)))"
      proof
        assume "\<exists>ys. outputs = (acc @ [y]) @ ys \<and> length ys = length is
          \<and> (\<forall>j < length is. \<exists>fc. getattr self (fc_name (is ! j)) = Inr fc
                                  \<and> call nn fc x = Inr (ys ! j))"
        then obtain ys where ys: "outputs = (acc @ [y]) @ ys" "length ys = length is"
          "\<forall>j < length is. \<exists>fc. getattr self (fc_name (is ! j)) = Inr fc
                                  \<and> call nn fc x = Inr (ys ! j)"
          by blast
        have "\<forall>j < length (i # is). \<exists>fc. getattr self (fc_name ((i # is) ! j)) = Inr fc
                                  \<and> call nn fc x = Inr ((y # ys) ! j)"
          using ys(3) fc Inr by (auto simp: nth_Cons split: nat.splits)
        with ys(1,2) show "\<exists>ys. outputs = acc @ ys \<and> length ys = length (i # is)
          \<and> (\<forall>j < length (i # is). \<exists>fc. getattr self (fc_name ((i # is) ! j)) = Inr fc
                                  \<and> call nn fc x = Inr (ys ! j))"
          by (intro exI [of _ "y # ys"]) simp
      next
        assume "\<exists>ys. outputs = acc @ ys \<and> length ys = length (i # is)
          \<and> (\<forall>j < length (i # is). \<exists>fc. getattr self (fc_name ((i # is) ! j)) = Inr fc
                                  \<and> call nn fc x = Inr (ys ! j))"
        then obtain ys where ys: "outputs = acc @ ys" "length ys = length (i # is)"
          "\<forall>j < length (i # is). \<exists>fc. getattr self (fc_name ((i # is) ! j)) = Inr fc
                                  \<and> call nn fc x = Inr (ys ! j)"
          by blast
        from ys(2) obtain y' ys' where c: "ys = y' # ys'"
          by (cases ys) auto
        from ys(3) [rule_format, of 0] fc Inr c have "y' = y"
          by simp
        moreover have "\<forall>j < length is. \<exists>fc. getattr self (fc_name (is ! j)) = Inr fc
                                  \<and> call nn fc x = Inr (ys' ! j)"
          using ys(3) c by (auto dest: spec [of _ "Suc _"])
        ultimately show "\<exists>ys. outputs = (acc @ [y]) @ ys \<and> length ys = length is
          \<and> (\<forall>j < length is. \<exists>fc. getattr self (fc_name (is ! j)) = Inr fc
                                  \<and> call nn fc x = Inr (ys ! j))"
          using ys(1,2) c by (intro exI [of _ ys']) simp
      qed
      finally show ?thesis .
    qed
  qed
qed

subsection \<open>The concrete runs\<close>

lemmas ex_defs =
  ex_sample_def ex_train_def ex_validation_def ex_test_def first_two_def ex_fit_only_def
  ex_with_transform_def ex_no_methods_def ex_evaluate_space_def ex_rundir_def ex_no_observers_def

lemmas run_defs =
  train_def run_evaluation_def eval_data_def fit_data_def call_fit_transform_def
  call_transform_def get_rundir_def if_rundir_def bind_def ret_def lift_def emit_def
  zip_star_def np_stack_reshape_def shape_at_def os_path_join_def dict_update_def
  dict_setitem_def Let_def

lemmas cfg_defs = cfg_inactive_def cfg_test_def cfg_validation_def

lemma ex_run_inactive:
  "train ex_evaluate_space ex_fit_only False ex_train ex_validation ex_test cfg_inactive ex_rundir 42 =
     ([LogWarn ''Model does not support separate training and prediction.'',
       LogWarn ''Directly running on test dataset!'',
       LogInfo ''Fitting model...'',
       CallFitTransform \<lparr>shape = [2, 3], items = [[13, 14, 15], [16, 17, 18]]\<rparr>,
       PickleDump ''runs/1/model.pth'' True],
      Inr [])"
  by (simp add: run_defs ex_defs cfg_defs)

lemma ex_run_no_methods:
  "train ex_evaluate_space ex_no_methods False ex_train ex_validation ex_test cfg_test ex_rundir 42 =
     ([LogWarn ''Model does not support separate training and prediction.'',
       LogWarn ''Directly running on test dataset!'',
       LogInfo ''Fitting model...''],
      Inl AttributeError)"
  by (simp add: run_defs ex_defs cfg_defs)

lemma ex_run_fit_only:
  "train ex_evaluate_space ex_fit_only False ex_train ex_validation ex_test cfg_test ex_rundir 42 =
     ([LogWarn ''Model does not support separate training and prediction.'',
       LogWarn ''Directly running on test dataset!'',
       LogInfo ''Fitting model...'',
       CallFitTransform \<lparr>shape = [2, 3], items = [[13, 14, 15], [16, 17, 18]]\<rparr>,
       PickleDump ''runs/1/model.pth'' True,
       LogInfo ''Running evaluation on test dataset'',
       Savez ''runs/1/latents.npz'' \<lparr>shape = [2, 2], items = [[13, 14], [16, 17]]\<rparr> [0, 1],
       VisualizeLatents \<lparr>shape = [2, 2], items = [[13, 14], [16, 17]]\<rparr> [0, 1]
         ''runs/1/latent_visualization.pdf'',
       EvaluateSpace 42 \<lparr>shape = [2, 3], items = [[13, 14, 15], [16, 17, 18]]\<rparr>
         \<lparr>shape = [2, 2], items = [[13, 14], [16, 17]]\<rparr> [0, 1] 15],
      Inr [(''test_n_points'', 2)])"
  by (simp add: run_defs ex_defs cfg_defs)

lemma ex_arrays_of_test:
  "arrays_of ex_test = Inr (\<lparr>shape = [2, 3], items = [[13, 14, 15], [16, 17, 18]]\<rparr>, [0, 1])"
  by (simp add: arrays_of_def zip_star_def np_stack_reshape_def ex_defs)

lemma ex_run_validation:
  "train ex_evaluate_space ex_with_transform False ex_train ex_validation ex_test cfg_validation
     ex_rundir 42 =
     ([LogInfo ''Fitting model...'',
       CallFitTransform \<lparr>shape = [3, 3], items = [[1, 2, 3], [4, 5, 6], [7, 8, 9]]\<rparr>,
       PickleDump ''runs/1/model.pth'' True,
       LogInfo ''Running evaluation on validation dataset'',
       CallTransform \<lparr>shape = [1, 3], items = [[10, 11, 12]]\<rparr>,
       Savez ''runs/1/latents.npz'' \<lparr>shape = [1, 2], items = [[10, 11]]\<rparr> [1],
       VisualizeLatents \<lparr>shape = [1, 2], items = [[10, 11]]\<rparr> [1]
         ''runs/1/latent_visualization.pdf'',
       EvaluateSpace 42 \<lparr>shape = [1, 3], items = [[10, 11, 12]]\<rparr>
         \<lparr>shape = [1, 2], items = [[10, 11]]\<rparr> [1] 15],
      Inr [(''validation_n_points'', 1)])"
  by (simp add: run_defs ex_defs cfg_defs)

lemma ex_run_no_observers:
  "train ex_evaluate_space ex_with_transform False ex_train ex_validation ex_test cfg_test
     ex_no_observers 42 =
     ([LogInfo ''Fitting model...'',
       CallFitTransform \<lparr>shape = [3, 3], items = [[1, 2, 3], [4, 5, 6], [7, 8, 9]]\<rparr>,
       LogInfo ''Running evaluation on test dataset'',
       CallTransform \<lparr>shape = [2, 3], items = [[13, 14, 15], [16, 17, 18]]\<rparr>,
       EvaluateSpace 42 \<lparr>shape = [2, 3], items = [[13, 14, 15], [16, 17, 18]]\<rparr>
         \<lparr>shape = [2, 2], items = [[13, 14], [16, 17]]\<rparr> [0, 1] 15],
      Inr [(''test_n_points'', 2)])"
  by (simp add: run_defs ex_defs cfg_defs)

lemma ex_run_test:
  "train ex_evaluate_space ex_with_transform False ex_train ex_validation ex_test cfg_test
     ex_rundir 42 =
     ([LogInfo ''Fitting model...'',
       CallFitTransform \<lparr>shape = [3, 3], items = [[1, 2, 3], [4, 5, 6], [7, 8, 9]]\<rparr>,
       PickleDump ''runs/1/model.pth'' True,
       LogInfo ''Running evaluation on test dataset'',
       CallTransform \<lparr>shape = [2, 3], items = [[13, 14, 15], [16, 17, 18]]\<rparr>,
       Savez ''runs/1/latents.npz'' \<lparr>shape = [2, 2], items = [[13, 14], [16, 17]]\<rparr> [0, 1],
       VisualizeLatents \<lparr>shape = [2, 2], items = [[13, 14], [16, 17]]\<rparr> [0, 1]
         ''runs/1/latent_visualization.pdf'',
       EvaluateSpace 42 \<lparr>shape = [2, 3], items = [[13, 14, 15], [16, 17, 18]]\<rparr>
         \<lparr>shape = [2, 2], items = [[13, 14], [16, 17]]\<rparr> [0, 1] 15],
      Inr [(''test_n_points'', 2)])"
  by (simp add: run_defs ex_defs cfg_defs)

lemma ex_run_mislabelled:
  "train ex_evaluate_space ex_fit_only False ex_train ex_validation ex_test cfg_validation
     ex_no_observers 42 =
     ([LogWarn ''Model does not support separate training and prediction.'',
       LogWarn ''Directly running on test dataset!'',
       LogInfo ''Fitting model...'',
       CallFitTransform \<lparr>shape = [2, 3], items = [[13, 14, 15], [16, 17, 18]]\<rparr>,
       LogInfo ''Running evaluation on validation dataset'',
       EvaluateSpace 42 \<lparr>shape = [2, 3], items = [[13, 14, 15], [16, 17, 18]]\<rparr>
         \<lparr>shape = [2, 2], items = [[13, 14], [16, 17]]\<rparr> [0, 1] 15],
      Inr [(''validation_n_points'', 2)])"
  by (simp add: run_defs ex_defs cfg_defs)

lemma ex_arrays_of_validation:
  "arrays_of ex_validation = Inr (\<lparr>shape = [1, 3], items = [[10, 11, 12]]\<rparr>, [1])"
  by (simp add: arrays_of_def zip_star_def np_stack_reshape_def ex_defs)

section \<open>What train does\<close>

text \<open>
  C10. When \<open>evaluation['active']\<close> is false, \<open>train\<close> only logs, calls \<open>fit_transform\<close>
  and pickles the model: there is no call of \<open>transform\<close>, of \<open>evaluate_space\<close> or of the
  plotting function and no \<open>latents.npz\<close>. Whenever it returns, it returns the empty
  dictionary, and it does return, after fitting, whenever the partition it fits on can
  be stacked and \<open>fit_transform\<close> returns. The events of such a run are exactly the
  warnings (for a model without \<open>transform\<close>), the log line and the call of
  \<open>fit_transform\<close>, followed by the pickling of the fitted model to \<open>model.pth\<close> under the
  run directory when there is one, and by nothing when there is none; the model is
  pickled nowhere else.
\<close>

theorem train_inactive:
  assumes "\<not> active evaluation'"
  shows "(\<forall>ev \<in> set (fst (train evaluate_space cls model train_dataset validation_dataset
                              test_dataset evaluation' run' seed)). fitting_only ev)
       \<and> (\<forall>r. snd (train evaluate_space cls model train_dataset validation_dataset
                      test_dataset evaluation' run' seed) = Inr r \<longrightarrow> r = [])
       \<and> (\<forall>f X labels Y m.
             fit_transform cls = Some f
             \<and> arrays_of (if transform cls \<noteq> None then train_dataset else test_dataset) = Inr (X, labels)
             \<and> f model X = Inr (Y, m) \<longrightarrow>
             snd (train evaluate_space cls model train_dataset validation_dataset
                      test_dataset evaluation' run' seed) = Inr []
             \<and> CallFitTransform X \<in> set (fst (train evaluate_space cls model train_dataset
                      validation_dataset test_dataset evaluation' run' seed))
             \<and> (\<forall>d. get_rundir run' = Some d \<and> d \<noteq> [] \<longrightarrow>
                    PickleDump (os_path_join d ''model.pth'') m
                      \<in> set (fst (train evaluate_space cls model train_dataset
                             validation_dataset test_dataset evaluation' run' seed)))
             \<and> train evaluate_space cls model train_dataset validation_dataset
                  test_dataset evaluation' run' seed
               = ((if transform cls \<noteq> None then []
                   else [LogWarn ''Model does not support separate training and prediction.'',
                         LogWarn ''Directly running on test dataset!''])
                  @ [LogInfo ''Fitting model...'', CallFitTransform X]
                  @ (case get_rundir run' of
                       None \<Rightarrow> []
                     | Some d \<Rightarrow>
                         if d \<noteq> [] then [PickleDump (os_path_join d ''model.pth'') m] else []),
                  Inr []))
       \<and> (\<forall>p m. PickleDump p m
                    \<in> set (fst (train evaluate_space cls model train_dataset validation_dataset
                                   test_dataset evaluation' run' seed)) \<longrightarrow>
                (\<exists>d. get_rundir run' = Some d \<and> d \<noteq> [] \<and> p = os_path_join d ''model.pth''))"
  using assms
  by (cases rule: train_cases [where es = evaluate_space and cls = cls and model = model
        and tr = train_dataset and va = validation_dataset and te = test_dataset
        and ev = evaluation' and run' = run' and seed = seed])
     (auto simp: fst_fit_data truthy_def split: option.splits if_splits)

theorem train_inactive_witness:
  "\<not> active cfg_inactive
   \<and> get_rundir ex_rundir = Some ''runs/1''
   \<and> train ex_evaluate_space ex_fit_only False ex_train ex_validation ex_test cfg_inactive
        ex_rundir 42
      = ([LogWarn ''Model does not support separate training and prediction.'',
          LogWarn ''Directly running on test dataset!'',
          LogInfo ''Fitting model...'',
          CallFitTransform \<lparr>shape = [2, 3], items = [[13, 14, 15], [16, 17, 18]]\<rparr>,
          PickleDump ''runs/1/model.pth'' True],
         Inr [])
   \<and> list_all fitting_only
       (fst (train ex_evaluate_space ex_fit_only False ex_train ex_validation ex_test cfg_inactive
               ex_rundir 42))
   \<and> PickleDump ''runs/1/model.pth'' True
       \<in> set (fst (train ex_evaluate_space ex_fit_only False ex_train ex_validation ex_test
                      cfg_inactive ex_rundir 42))
   \<and> train ex_evaluate_space ex_fit_only False ex_train ex_validation ex_test cfg_inactive
        ex_no_observers 42
      = ([LogWarn ''Model does not support separate training and prediction.'',
          LogWarn ''Directly running on test dataset!'',
          LogInfo ''Fitting model...'',
          CallFitTransform \<lparr>shape = [2, 3], items = [[13, 14, 15], [16, 17, 18]]\<rparr>],
         Inr [])"
proof -
  have inactive: "\<not> active cfg_inactive"
    by (simp add: cfg_inactive_def)
  have rd: "get_rundir ex_rundir = Some ''runs/1''" and no: "get_rundir ex_no_observers = None"
    by (simp_all add: get_rundir_def ex_rundir_def ex_no_observers_def)
  have fitted:
    "fit_transform ex_fit_only = Some (\<lambda>m X. Inr (first_two X, True))
     \<and> arrays_of (if transform ex_fit_only \<noteq> None then ex_train else ex_test)
         = Inr (\<lparr>shape = [2, 3], items = [[13, 14, 15], [16, 17, 18]]\<rparr>, [0, 1])
     \<and> (\<lambda>m X. Inr (first_two X, True)) False
           \<lparr>shape = [2, 3], items = [[13, 14, 15], [16, 17, 18]]\<rparr>
         = Inr (first_two \<lparr>shape = [2, 3], items = [[13, 14, 15], [16, 17, 18]]\<rparr>, True)"
    by (simp add: ex_fit_only_def ex_arrays_of_test)
  have tr: "transform ex_fit_only = None"
    by (simp add: ex_fit_only_def)
  have path: "os_path_join ''runs/1'' ''model.pth'' = ''runs/1/model.pth''"
    by (simp add: os_path_join_def)
  note a = train_inactive [OF inactive, of ex_evaluate_space ex_fit_only False ex_train
      ex_validation ex_test ex_rundir 42, THEN conjunct2, THEN conjunct2, THEN conjunct1,
      rule_format, OF fitted]
  note b = train_inactive [OF inactive, of ex_evaluate_space ex_fit_only False ex_train
      ex_validation ex_test ex_no_observers 42, THEN conjunct2, THEN conjunct2, THEN conjunct1,
      rule_format, OF fitted]
  note c = train_inactive [OF inactive, of ex_evaluate_space ex_fit_only False ex_train
      ex_validation ex_test ex_rundir 42, THEN conjunct1]
  have run1: "train ex_evaluate_space ex_fit_only False ex_train ex_validation ex_test cfg_inactive
        ex_rundir 42
      = ([LogWarn ''Model does not support separate training and prediction.'',
          LogWarn ''Directly running on test dataset!'',
          LogInfo ''Fitting model...'',
          CallFitTransform \<lparr>shape = [2, 3], items = [[13, 14, 15], [16, 17, 18]]\<rparr>,
          PickleDump ''runs/1/model.pth'' True],
         Inr [])"
    using a [THEN conjunct2, THEN conjunct2, THEN conjunct2] by (simp add: tr rd path)
  have run2: "train ex_evaluate_space ex_fit_only False ex_train ex_validation ex_test cfg_inactive
        ex_no_observers 42
      = ([LogWarn ''Model does not support separate training and prediction.'',
          LogWarn ''Directly running on test dataset!'',
          LogInfo ''Fitting model...'',
          CallFitTransform \<lparr>shape = [2, 3], items = [[13, 14, 15], [16, 17, 18]]\<rparr>],
         Inr [])"
    using b [THEN conjunct2, THEN conjunct2, THEN conjunct2] by (simp add: tr no)
  have pickled: "PickleDump ''runs/1/model.pth'' True
       \<in> set (fst (train ex_evaluate_space ex_fit_only False ex_train ex_validation ex_test
                      cfg_inactive ex_rundir 42))"
    using a [THEN conjunct2, THEN conjunct2, THEN conjunct1, rule_format, of "''runs/1''"] rd path
    by simp
  have only: "list_all fitting_only
       (fst (train ex_evaluate_space ex_fit_only False ex_train ex_validation ex_test cfg_inactive
               ex_rundir 42))"
    using c by (simp add: list_all_iff)
  from inactive rd run1 run2 pickled only show ?thesis
    by - (intro conjI; assumption)
qed

text \<open>
  C4. A model object without \<open>fit_transform\<close> makes \<open>train\<close> raise: no result is returned,
  and up to the exception \<open>train\<close> has only written log lines, so no file is written, no
  embedding is computed and \<open>evaluate_space\<close> is not called. When the partition to fit on
  can be stacked, the exception is the \<open>AttributeError\<close> of the missing method.
\<close>

theorem train_without_fit_transform:
  assumes "fit_transform cls = None"
  shows "(\<exists>e. snd (train evaluate_space cls model train_dataset validation_dataset
                      test_dataset evaluation' run' seed) = Inl e)
       \<and> (\<forall>ev \<in> set (fst (train evaluate_space cls model train_dataset validation_dataset
                              test_dataset evaluation' run' seed)). is_log ev)
       \<and> (\<forall>X labels.
             arrays_of (if transform cls \<noteq> None then train_dataset else test_dataset) = Inr (X, labels) \<longrightarrow>
             snd (train evaluate_space cls model train_dataset validation_dataset
                      test_dataset evaluation' run' seed) = Inl AttributeError)"
  using assms
  by (auto simp: train_def Let_def comp_simps split: sum.splits prod.splits if_splits)

theorem train_without_fit_transform_witness:
  "fit_transform ex_no_methods = None
   \<and> snd (train ex_evaluate_space ex_no_methods False ex_train ex_validation ex_test cfg_test
            ex_rundir 42) = Inl AttributeError
   \<and> list_all is_log
       (fst (train ex_evaluate_space ex_no_methods False ex_train ex_validation ex_test cfg_test
               ex_rundir 42))"
  using train_without_fit_transform [of ex_no_methods ex_evaluate_space False ex_train
      ex_validation ex_test cfg_test ex_rundir 42]
  unfolding ex_run_no_methods by (simp add: ex_no_methods_def)

text \<open>
  C2. For a model object without \<open>transform\<close>, \<open>train\<close> logs the two warnings, calls
  \<open>fit_transform\<close> on nothing but the arrays of the test partition, never calls
  \<open>transform\<close>, and every call of \<open>evaluate_space\<close> gets those same arrays together with
  what \<open>fit_transform\<close> returned for them. The calls do take place: \<open>fit_transform\<close> as
  soon as the test partition can be stacked, \<open>evaluate_space\<close> when evaluation is active
  and the embedding has a second dimension.
\<close>

theorem train_without_transform:
  assumes "transform cls = None"
  shows "LogWarn ''Model does not support separate training and prediction.''
           \<in> set (fst (train evaluate_space cls model train_dataset validation_dataset
                          test_dataset evaluation' run' seed))
       \<and> LogWarn ''Directly running on test dataset!''
           \<in> set (fst (train evaluate_space cls model train_dataset validation_dataset
                          test_dataset evaluation' run' seed))
       \<and> (\<forall>X. CallFitTransform X
                 \<in> set (fst (train evaluate_space cls model train_dataset validation_dataset
                                test_dataset evaluation' run' seed)) \<longrightarrow>
               (\<exists>labels. arrays_of test_dataset = Inr (X, labels)))
       \<and> (\<forall>X. CallTransform X
                 \<notin> set (fst (train evaluate_space cls model train_dataset validation_dataset
                                test_dataset evaluation' run' seed)))
       \<and> (\<forall>s X Y labels K.
             EvaluateSpace s X Y labels K
               \<in> set (fst (train evaluate_space cls model train_dataset validation_dataset
                              test_dataset evaluation' run' seed)) \<longrightarrow>
             arrays_of test_dataset = Inr (X, labels)
             \<and> CallFitTransform X
                 \<in> set (fst (train evaluate_space cls model train_dataset validation_dataset
                                test_dataset evaluation' run' seed))
             \<and> (\<exists>f m. fit_transform cls = Some f \<and> f model X = Inr (Y, m)))
       \<and> (\<forall>X labels f Y m.
             arrays_of test_dataset = Inr (X, labels) \<and> fit_transform cls = Some f
             \<and> f model X = Inr (Y, m) \<longrightarrow>
             CallFitTransform X
               \<in> set (fst (train evaluate_space cls model train_dataset validation_dataset
                              test_dataset evaluation' run' seed))
             \<and> (active evaluation' \<and> 1 < length (shape Y) \<longrightarrow>
                  EvaluateSpace seed X Y labels (k_cfg evaluation')
                    \<in> set (fst (train evaluate_space cls model train_dataset validation_dataset
                                   test_dataset evaluation' run' seed))))"
  using assms
  by (auto simp: train_simps shape_at_def split: sum.splits prod.splits option.splits if_splits dest: sym)


theorem train_without_transform_witness:
  "transform ex_fit_only = None
   \<and> arrays_of ex_test = Inr (\<lparr>shape = [2, 3], items = [[13, 14, 15], [16, 17, 18]]\<rparr>, [0, 1])
   \<and> fit_transform ex_fit_only = Some (\<lambda>m X. Inr (first_two X, True))
   \<and> first_two \<lparr>shape = [2, 3], items = [[13, 14, 15], [16, 17, 18]]\<rparr>
       = \<lparr>shape = [2, 2], items = [[13, 14], [16, 17]]\<rparr>
   \<and> LogWarn ''Directly running on test dataset!''
       \<in> set (fst (train ex_evaluate_space ex_fit_only False ex_train ex_validation ex_test cfg_test
                  ex_rundir 42))
   \<and> CallFitTransform \<lparr>shape = [2, 3], items = [[13, 14, 15], [16, 17, 18]]\<rparr>
       \<in> set (fst (train ex_evaluate_space ex_fit_only False ex_train ex_validation ex_test cfg_test
                  ex_rundir 42))
   \<and> EvaluateSpace 42 \<lparr>shape = [2, 3], items = [[13, 14, 15], [16, 17, 18]]\<rparr>
         \<lparr>shape = [2, 2], items = [[13, 14], [16, 17]]\<rparr> [0, 1] 15
       \<in> set (fst (train ex_evaluate_space ex_fit_only False ex_train ex_validation ex_test cfg_test
                  ex_rundir 42))"
  using train_without_transform [of ex_fit_only ex_evaluate_space False ex_train ex_validation
      ex_test cfg_test ex_rundir 42]
  unfolding ex_run_fit_only ex_arrays_of_test by (simp add: ex_fit_only_def first_two_def)


text \<open>
  C5. Whenever \<open>train\<close> calls \<open>evaluate_space\<close>, the embedding it passes is what the model
  returned for exactly the data array it passes: \<open>transform\<close> of that array when the
  model has \<open>transform\<close>, \<open>fit_transform\<close> of it otherwise. So, if both methods return
  for every input row, in order, a row that is its embedding (the relation \<open>emb\<close>), the
  two arrays have the same length, the labels have that length too, and row \<open>i\<close> of the
  embedding is the embedding of row \<open>i\<close> of the data.
\<close>

theorem train_evaluate_space_aligned:
  assumes fit: "\<forall>f m X Y m'. fit_transform cls = Some f \<and> f m X = Inr (Y, m') \<longrightarrow>
                  list_all2 emb (items X) (items Y)"
    and tr: "\<forall>g m X Y. transform cls = Some g \<and> g m X = Inr Y \<longrightarrow>
                  list_all2 emb (items X) (items Y)"
    and ev: "EvaluateSpace s X Y labels K
               \<in> set (fst (train evaluate_space cls model train_dataset validation_dataset
                              test_dataset evaluation' run' seed))"
  shows "length (items Y) = length (items X)
       \<and> length labels = length (items X)
       \<and> (\<forall>i < length (items X). emb (items X ! i) (items Y ! i))
       \<and> ((\<exists>g m. transform cls = Some g \<and> g m X = Inr Y)
          \<or> (transform cls = None \<and> (\<exists>f m. fit_transform cls = Some f \<and> f model X = Inr (Y, m))))"
proof -
  from ev have src:
    "(\<exists>ds. arrays_of ds = Inr (X, labels))
     \<and> ((\<exists>g m. transform cls = Some g \<and> g m X = Inr Y)
        \<or> (transform cls = None \<and> (\<exists>f m. fit_transform cls = Some f \<and> f model X = Inr (Y, m))))"
    by (cases rule: train_paths [of cls train_dataset test_dataset evaluate_space model
          validation_dataset evaluation' run' seed])
       (auto simp: fst_fit_data snd_eval_data_Inr split: if_splits
             dest: subsetD [OF fst_eval_data_subset])
  then obtain ds where ds: "arrays_of ds = Inr (X, labels)"
    by blast
  from src fit tr have rel: "list_all2 emb (items X) (items Y)"
    by blast
  from ds have "length labels = length (items X)"
    by (simp add: arrays_of_lengths)
  with rel src show ?thesis
    by (simp add: list_all2_conv_all_nth)
qed


theorem train_evaluate_space_aligned_witness:
  "EvaluateSpace 42 \<lparr>shape = [2, 3], items = [[13, 14, 15], [16, 17, 18]]\<rparr>
       \<lparr>shape = [2, 2], items = [[13, 14], [16, 17]]\<rparr> [0, 1] 15
     \<in> set (fst (train ex_evaluate_space ex_with_transform False ex_train ex_validation ex_test
                    cfg_test ex_rundir 42))
   \<and> length (items \<lparr>shape = [2, 2], items = [[13, 14], [16, 17 :: int]]\<rparr>) = 2
   \<and> length (items \<lparr>shape = [2, 3], items = [[13, 14, 15], [16, 17, 18 :: int]]\<rparr>) = 2
   \<and> length [0, 1 :: nat] = 2
   \<and> items \<lparr>shape = [2, 2], items = [[13, 14], [16, 17 :: int]]\<rparr> ! 0
       = take 2 (items \<lparr>shape = [2, 3], items = [[13, 14, 15], [16, 17, 18 :: int]]\<rparr> ! 0)
   \<and> items \<lparr>shape = [2, 2], items = [[13, 14], [16, 17 :: int]]\<rparr> ! 1
       = take 2 (items \<lparr>shape = [2, 3], items = [[13, 14, 15], [16, 17, 18 :: int]]\<rparr> ! 1)
   \<and> items \<lparr>shape = [2, 2], items = [[13, 14], [16, 17 :: int]]\<rparr> ! 0
       \<noteq> take 2 (items \<lparr>shape = [2, 3], items = [[13, 14, 15], [16, 17, 18 :: int]]\<rparr> ! 1)"
proof -
  have fit: "\<forall>f m X Y m'. fit_transform ex_with_transform = Some f \<and> f m X = Inr (Y, m') \<longrightarrow>
      list_all2 (\<lambda>x y. y = take 2 x) (items X) (items Y)"
    by (auto simp: ex_with_transform_def first_two_def list_all2_conv_all_nth)
  have tr: "\<forall>g m X Y. transform ex_with_transform = Some g \<and> g m X = Inr Y \<longrightarrow>
      list_all2 (\<lambda>x y. y = take 2 x) (items X) (items Y)"
    by (auto simp: ex_with_transform_def first_two_def list_all2_conv_all_nth)
  have ev: "EvaluateSpace 42 \<lparr>shape = [2, 3], items = [[13, 14, 15], [16, 17, 18]]\<rparr>
       \<lparr>shape = [2, 2], items = [[13, 14], [16, 17]]\<rparr> [0, 1] 15
     \<in> set (fst (train ex_evaluate_space ex_with_transform False ex_train ex_validation ex_test
                    cfg_test ex_rundir 42))"
    unfolding ex_run_test by simp
  note inst = train_evaluate_space_aligned [OF fit tr ev]
  from inst have len: "length (items \<lparr>shape = [2, 2], items = [[13, 14], [16, 17 :: int]]\<rparr>)
      = length (items \<lparr>shape = [2, 3], items = [[13, 14, 15], [16, 17, 18 :: int]]\<rparr>)"
    and lab: "length [0, 1 :: nat]
      = length (items \<lparr>shape = [2, 3], items = [[13, 14, 15], [16, 17, 18 :: int]]\<rparr>)"
    and rows: "\<forall>i < length (items \<lparr>shape = [2, 3], items = [[13, 14, 15], [16, 17, 18 :: int]]\<rparr>).
        items \<lparr>shape = [2, 2], items = [[13, 14], [16, 17 :: int]]\<rparr> ! i
          = take 2 (items \<lparr>shape = [2, 3], items = [[13, 14, 15], [16, 17, 18 :: int]]\<rparr> ! i)"
    by blast+
  from rows have r0: "items \<lparr>shape = [2, 2], items = [[13, 14], [16, 17 :: int]]\<rparr> ! 0
       = take 2 (items \<lparr>shape = [2, 3], items = [[13, 14, 15], [16, 17, 18 :: int]]\<rparr> ! 0)"
    and r1: "items \<lparr>shape = [2, 2], items = [[13, 14], [16, 17 :: int]]\<rparr> ! 1
       = take 2 (items \<lparr>shape = [2, 3], items = [[13, 14, 15], [16, 17, 18 :: int]]\<rparr> ! 1)"
    by simp_all
  from ev len lab r0 r1 show ?thesis
    by simp
qed

text \<open>
  C6. With a run directory \<open>d\<close> (the \<open>dir\<close> of the first observer, a non-empty path),
  every pickle goes to \<open>model.pth\<close> and every array archive to \<open>latents.npz\<close> under \<open>d\<close>;
  the fitted model is pickled as soon as fitting has returned, the embedding and the
  labels of every call of \<open>evaluate_space\<close> have been saved, and a run that returns has
  written the model and, with evaluation active, the archive.
\<close>

theorem train_artifacts_in_rundir:
  assumes "get_rundir run' = Some d" and "d \<noteq> []"
  shows "(\<forall>p m. PickleDump p m
                  \<in> set (fst (train evaluate_space cls model train_dataset validation_dataset
                                 test_dataset evaluation' run' seed)) \<longrightarrow>
                p = os_path_join d ''model.pth'')
       \<and> (\<forall>p Y labels. Savez p Y labels
                  \<in> set (fst (train evaluate_space cls model train_dataset validation_dataset
                                 test_dataset evaluation' run' seed)) \<longrightarrow>
                p = os_path_join d ''latents.npz'' \<and> active evaluation')
       \<and> (\<forall>f X labels Y m.
             fit_transform cls = Some f
             \<and> arrays_of (if transform cls \<noteq> None then train_dataset else test_dataset) = Inr (X, labels)
             \<and> f model X = Inr (Y, m) \<longrightarrow>
             PickleDump (os_path_join d ''model.pth'') m
               \<in> set (fst (train evaluate_space cls model train_dataset validation_dataset
                              test_dataset evaluation' run' seed)))
       \<and> (\<forall>s X Y labels K.
             EvaluateSpace s X Y labels K
               \<in> set (fst (train evaluate_space cls model train_dataset validation_dataset
                              test_dataset evaluation' run' seed)) \<longrightarrow>
             Savez (os_path_join d ''latents.npz'') Y labels
               \<in> set (fst (train evaluate_space cls model train_dataset validation_dataset
                              test_dataset evaluation' run' seed)))
       \<and> (\<forall>r. snd (train evaluate_space cls model train_dataset validation_dataset
                      test_dataset evaluation' run' seed) = Inr r \<longrightarrow>
              (\<exists>m. PickleDump (os_path_join d ''model.pth'') m
                      \<in> set (fst (train evaluate_space cls model train_dataset validation_dataset
                                     test_dataset evaluation' run' seed)))
              \<and> (active evaluation' \<longrightarrow>
                   (\<exists>Y labels. Savez (os_path_join d ''latents.npz'') Y labels
                      \<in> set (fst (train evaluate_space cls model train_dataset validation_dataset
                                     test_dataset evaluation' run' seed)))))
       \<and> os_path_join d ''model.pth'' = d @ (if last d = CHR ''/'' then [] else ''/'') @ ''model.pth''
       \<and> os_path_join d ''latents.npz'' = d @ (if last d = CHR ''/'' then [] else ''/'') @ ''latents.npz''"
proof -
  have paths: "os_path_join d ''model.pth'' = d @ (if last d = CHR ''/'' then [] else ''/'') @ ''model.pth''
       \<and> os_path_join d ''latents.npz'' = d @ (if last d = CHR ''/'' then [] else ''/'') @ ''latents.npz''"
    using assms(2) by (simp add: os_path_join_def)
  have t: "truthy (get_rundir run')" "the (get_rundir run') = d"
    using assms by (simp_all add: truthy_def)
  have "(\<forall>p m. PickleDump p m
                  \<in> set (fst (train evaluate_space cls model train_dataset validation_dataset
                                 test_dataset evaluation' run' seed)) \<longrightarrow>
                p = os_path_join d ''model.pth'')
       \<and> (\<forall>p Y labels. Savez p Y labels
                  \<in> set (fst (train evaluate_space cls model train_dataset validation_dataset
                                 test_dataset evaluation' run' seed)) \<longrightarrow>
                p = os_path_join d ''latents.npz'' \<and> active evaluation')
       \<and> (\<forall>f X labels Y m.
             fit_transform cls = Some f
             \<and> arrays_of (if transform cls \<noteq> None then train_dataset else test_dataset) = Inr (X, labels)
             \<and> f model X = Inr (Y, m) \<longrightarrow>
             PickleDump (os_path_join d ''model.pth'') m
               \<in> set (fst (train evaluate_space cls model train_dataset validation_dataset
                              test_dataset evaluation' run' seed)))
       \<and> (\<forall>s X Y labels K.
             EvaluateSpace s X Y labels K
               \<in> set (fst (train evaluate_space cls model train_dataset validation_dataset
                              test_dataset evaluation' run' seed)) \<longrightarrow>
             Savez (os_path_join d ''latents.npz'') Y labels
               \<in> set (fst (train evaluate_space cls model train_dataset validation_dataset
                              test_dataset evaluation' run' seed)))
       \<and> (\<forall>r. snd (train evaluate_space cls model train_dataset validation_dataset
                      test_dataset evaluation' run' seed) = Inr r \<longrightarrow>
              (\<exists>m. PickleDump (os_path_join d ''model.pth'') m
                      \<in> set (fst (train evaluate_space cls model train_dataset validation_dataset
                                     test_dataset evaluation' run' seed)))
              \<and> (active evaluation' \<longrightarrow>
                   (\<exists>Y labels. Savez (os_path_join d ''latents.npz'') Y labels
                      \<in> set (fst (train evaluate_space cls model train_dataset validation_dataset
                                     test_dataset evaluation' run' seed)))))"
    using t
    by (cases rule: train_paths [of cls train_dataset test_dataset evaluate_space model
          validation_dataset evaluation' run' seed])
       (auto simp: fst_fit_data split: if_splits dest: subsetD [OF fst_eval_data_subset])
  from this paths show ?thesis
    by (elim conjE) (intro conjI; assumption)
qed

theorem train_artifacts_in_rundir_witness:
  "get_rundir ex_rundir = Some ''runs/1''
   \<and> PickleDump ''runs/1/model.pth'' True
       \<in> set (fst (train ex_evaluate_space ex_with_transform False ex_train ex_validation ex_test
                      cfg_test ex_rundir 42))
   \<and> Savez ''runs/1/latents.npz'' \<lparr>shape = [2, 2], items = [[13, 14], [16, 17]]\<rparr> [0, 1]
       \<in> set (fst (train ex_evaluate_space ex_with_transform False ex_train ex_validation ex_test
                      cfg_test ex_rundir 42))
   \<and> os_path_join ''runs/1'' ''model.pth'' = ''runs/1/model.pth''
   \<and> os_path_join ''runs/1'' ''latents.npz'' = ''runs/1/latents.npz''"
proof -
  have rd: "get_rundir ex_rundir = Some ''runs/1''"
    by (simp add: get_rundir_def ex_rundir_def)
  have ne: "''runs/1'' \<noteq> []"
    by simp
  have ev: "EvaluateSpace 42 \<lparr>shape = [2, 3], items = [[13, 14, 15], [16, 17, 18]]\<rparr>
         \<lparr>shape = [2, 2], items = [[13, 14], [16, 17]]\<rparr> [0, 1] 15
     \<in> set (fst (train ex_evaluate_space ex_with_transform False ex_train ex_validation ex_test
                    cfg_test ex_rundir 42))"
    unfolding ex_run_test by simp
  have ret: "snd (train ex_evaluate_space ex_with_transform False ex_train ex_validation ex_test
                    cfg_test ex_rundir 42) = Inr [(''test_n_points'', 2)]"
    unfolding ex_run_test by simp
  note inst = train_artifacts_in_rundir [OF rd ne, of ex_evaluate_space ex_with_transform False
      ex_train ex_validation ex_test cfg_test 42]
  from inst have saved:
    "Savez (os_path_join ''runs/1'' ''latents.npz'')
       \<lparr>shape = [2, 2], items = [[13, 14], [16, 17]]\<rparr> [0, 1]
       \<in> set (fst (train ex_evaluate_space ex_with_transform False ex_train ex_validation ex_test
                      cfg_test ex_rundir 42))"
    using ev by blast
  from inst ret have "\<exists>m. PickleDump (os_path_join ''runs/1'' ''model.pth'') m
       \<in> set (fst (train ex_evaluate_space ex_with_transform False ex_train ex_validation ex_test
                      cfg_test ex_rundir 42))"
    by blast
  then have pickled: "PickleDump (os_path_join ''runs/1'' ''model.pth'') True
       \<in> set (fst (train ex_evaluate_space ex_with_transform False ex_train ex_validation ex_test
                      cfg_test ex_rundir 42))"
    unfolding ex_run_test by auto
  have paths: "os_path_join ''runs/1'' ''model.pth'' = ''runs/1/model.pth''
      \<and> os_path_join ''runs/1'' ''latents.npz'' = ''runs/1/latents.npz''"
    by (simp add: os_path_join_def)
  from rd saved pickled paths show ?thesis
    by simp
qed

text \<open>
  C9. Without observers \<open>train\<close> writes no file and requests no plot, and apart from that
  it does what it does with any other run object: the same outcome (the same result
  dictionary or the same exception) and the same events, the file events left out.
\<close>

theorem train_no_observers:
  assumes "observers run' = []"
  shows "(\<forall>ev \<in> set (fst (train evaluate_space cls model train_dataset validation_dataset
                              test_dataset evaluation' run' seed)). \<not> writes_file ev)
       \<and> (\<forall>run''.
             snd (train evaluate_space cls model train_dataset validation_dataset
                    test_dataset evaluation' run' seed)
               = snd (train evaluate_space cls model train_dataset validation_dataset
                        test_dataset evaluation' run'' seed)
             \<and> fst (train evaluate_space cls model train_dataset validation_dataset
                      test_dataset evaluation' run' seed)
               = filter (\<lambda>ev. \<not> writes_file ev)
                   (fst (train evaluate_space cls model train_dataset validation_dataset
                           test_dataset evaluation' run'' seed)))"
proof -
  have rd: "\<not> truthy (get_rundir run')"
    using assms by (simp add: get_rundir_def truthy_def)
  have AB: "train evaluate_space cls model train_dataset validation_dataset
                      test_dataset evaluation' run' seed
               = (filter (\<lambda>ev. \<not> writes_file ev)
                   (fst (train evaluate_space cls model train_dataset validation_dataset
                           test_dataset evaluation' run'' seed)),
                  snd (train evaluate_space cls model train_dataset validation_dataset
                           test_dataset evaluation' run'' seed))" for run''
    using rd
    by (cases rule: train_paths [of cls train_dataset test_dataset evaluate_space model
          validation_dataset evaluation' run'' seed])
       (simp_all add: prod_eq_iff fst_train snd_train fst_fit_data fst_bind snd_bind
          run_evaluation_def Let_def fst_if_rundir fst_eval_data_Inr filter_eval_data)
  have A: "snd (train evaluate_space cls model train_dataset validation_dataset
                    test_dataset evaluation' run' seed)
               = snd (train evaluate_space cls model train_dataset validation_dataset
                        test_dataset evaluation' run'' seed)" for run''
    by (subst AB [of run'']) simp
  have B: "fst (train evaluate_space cls model train_dataset validation_dataset
                      test_dataset evaluation' run' seed)
               = filter (\<lambda>ev. \<not> writes_file ev)
                   (fst (train evaluate_space cls model train_dataset validation_dataset
                           test_dataset evaluation' run'' seed))" for run''
    by (subst AB [of run'']) simp
  have "\<forall>ev \<in> set (fst (train evaluate_space cls model train_dataset validation_dataset
                              test_dataset evaluation' run' seed)). \<not> writes_file ev"
    by (subst B [of run']) simp
  with A B show ?thesis by blast
qed

theorem train_no_observers_witness:
  "observers ex_no_observers = []
   \<and> list_all (\<lambda>ev. \<not> writes_file ev)
       (fst (train ex_evaluate_space ex_with_transform False ex_train ex_validation ex_test
               cfg_test ex_no_observers 42))
   \<and> snd (train ex_evaluate_space ex_with_transform False ex_train ex_validation ex_test
            cfg_test ex_no_observers 42) = Inr [(''test_n_points'', 2)]
   \<and> snd (train ex_evaluate_space ex_with_transform False ex_train ex_validation ex_test
            cfg_test ex_rundir 42) = Inr [(''test_n_points'', 2)]
   \<and> list_ex writes_file
       (fst (train ex_evaluate_space ex_with_transform False ex_train ex_validation ex_test
               cfg_test ex_rundir 42))"
proof -
  have no: "observers ex_no_observers = []"
    by (simp add: ex_no_observers_def)
  from train_no_observers [OF no, of ex_evaluate_space ex_with_transform False
      ex_train ex_validation ex_test cfg_test 42] no
  show ?thesis
    unfolding ex_run_test ex_run_no_observers by simp
qed

text \<open>
  C3, as amended. A plot is requested only with evaluation active, for an embedding whose
  second dimension is 2, and only when there is a run directory; its path is
  \<open>latent_visualization.pdf\<close> under that directory. With a run directory, every embedding
  of second dimension 2 that is evaluated has been plotted.
\<close>

theorem train_visualization:
  "(\<forall>Y labels p.
       VisualizeLatents Y labels p
         \<in> set (fst (train evaluate_space cls model train_dataset validation_dataset
                        test_dataset evaluation' run' seed)) \<longrightarrow>
       active evaluation' \<and> shape_at Y 1 = Inr 2
       \<and> (\<exists>d. get_rundir run' = Some d \<and> d \<noteq> []
              \<and> p = os_path_join d ''latent_visualization.pdf''))
   \<and> (\<forall>s X Y labels K d.
         EvaluateSpace s X Y labels K
           \<in> set (fst (train evaluate_space cls model train_dataset validation_dataset
                          test_dataset evaluation' run' seed))
         \<and> shape_at Y 1 = Inr 2 \<and> get_rundir run' = Some d \<and> d \<noteq> [] \<longrightarrow>
         VisualizeLatents Y labels (os_path_join d ''latent_visualization.pdf'')
           \<in> set (fst (train evaluate_space cls model train_dataset validation_dataset
                          test_dataset evaluation' run' seed)))"
  by (cases rule: train_paths [of cls train_dataset test_dataset evaluate_space model
        validation_dataset evaluation' run' seed])
     (auto simp: fst_fit_data truthy_def split: if_splits option.splits
           dest: subsetD [OF fst_eval_data_subset])


theorem train_visualization_witness:
  "VisualizeLatents \<lparr>shape = [2, 2], items = [[13, 14], [16, 17]]\<rparr> [0, 1]
       ''runs/1/latent_visualization.pdf''
     \<in> set (fst (train ex_evaluate_space ex_with_transform False ex_train ex_validation ex_test
                    cfg_test ex_rundir 42))
   \<and> active cfg_test
   \<and> shape_at \<lparr>shape = [2, 2], items = [[13, 14], [16, 17 :: int]]\<rparr> 1 = Inr 2
   \<and> get_rundir ex_rundir = Some ''runs/1''
   \<and> os_path_join ''runs/1'' ''latent_visualization.pdf'' = ''runs/1/latent_visualization.pdf''"
  using train_visualization [of ex_evaluate_space ex_with_transform False
      ex_train ex_validation ex_test cfg_test ex_rundir 42]
  unfolding ex_run_test
  by (simp add: cfg_test_def shape_at_def get_rundir_def ex_rundir_def os_path_join_def)

text \<open>
  C3, as stated, fails: a run with evaluation active and no observers evaluates an
  embedding of shape \<open>(2, 2)\<close> and requests no plot.
\<close>

theorem visualization_without_rundir:
  "active cfg_test
   \<and> EvaluateSpace 42 \<lparr>shape = [2, 3], items = [[13, 14, 15], [16, 17, 18]]\<rparr>
         \<lparr>shape = [2, 2], items = [[13, 14], [16, 17]]\<rparr> [0, 1] 15
       \<in> set (fst (train ex_evaluate_space ex_with_transform False ex_train ex_validation ex_test
                      cfg_test ex_no_observers 42))
   \<and> shape_at \<lparr>shape = [2, 2], items = [[13, 14], [16, 17 :: int]]\<rparr> 1 = Inr 2
   \<and> \<not> list_ex is_visualization
         (fst (train ex_evaluate_space ex_with_transform False ex_train ex_validation ex_test
                 cfg_test ex_no_observers 42))"
  unfolding ex_run_no_observers
  by (simp add: cfg_test_def shape_at_def)

subsection \<open>The keys of the result\<close>

text \<open>
  What holds of the keys in general: a run with evaluation active that returns has called
  \<open>evaluate_space\<close>, and its keys are the keys \<open>evaluate_space\<close> returned, each behind the
  configured \<open>evaluate_on\<close> and an underscore.
\<close>

lemma keys_dict_setitem: "set (keys (dict_setitem d key v)) = insert key (set (keys d))"
  by (simp add: keys_def dict_setitem_def dom_update)

lemma keys_dict_update: "set (keys (dict_update d other)) = set (keys d) \<union> set (keys other)"
proof -
  have "set (keys (foldl (\<lambda>acc (key, v). dict_setitem acc key v) d other))
          = set (keys d) \<union> fst ` set other"
    by (induction other arbitrary: d) (auto simp: keys_dict_setitem)
  then show ?thesis
    by (simp add: dict_update_def keys_def)
qed

lemma train_result_keys:
  assumes "snd (train evaluate_space cls model train_dataset validation_dataset
                  test_dataset evaluation' run' seed) = Inr r"
    and "active evaluation'"
  shows "\<exists>X Y labels ev_result.
           EvaluateSpace seed X Y labels (k_cfg evaluation')
             \<in> set (fst (train evaluate_space cls model train_dataset validation_dataset
                            test_dataset evaluation' run' seed))
           \<and> evaluate_space seed X Y labels (k_cfg evaluation') = Inr ev_result
           \<and> set (keys r) = (\<lambda>key. evaluate_on evaluation' @ ''_'' @ key) ` set (keys ev_result)"
  using assms
proof (cases rule: train_cases [where es = evaluate_space and cls = cls and model = model
    and tr = train_dataset and va = validation_dataset and te = test_dataset
    and ev = evaluation' and run' = run' and seed = seed])
  case (returns X0 l0 f Y0 m X l Y d1 ev_result)
  from returns(8) assms(1)
  have r: "r = dict_update []
             (dict_update [] (map (\<lambda>(key, v). (evaluate_on evaluation' @ ''_'' @ key, v)) ev_result))"
    by simp
  have "set (keys r) = (\<lambda>key. evaluate_on evaluation' @ ''_'' @ key) ` set (keys ev_result)"
    unfolding r keys_dict_update
    by (force simp: keys_def)
  moreover have "EvaluateSpace seed X Y l (k_cfg evaluation')
             \<in> set (fst (train evaluate_space cls model train_dataset validation_dataset
                            test_dataset evaluation' run' seed))"
    unfolding returns(8) by simp
  ultimately show ?thesis
    using returns(7) by blast
qed simp_all

text \<open>
  C1. The prefix of the keys is the configured \<open>evaluate_on\<close>, whatever was evaluated:
  for a model without \<open>transform\<close> and \<open>evaluate_on = 'validation'\<close>, \<open>evaluate_space\<close>
  gets the arrays of the test partition and the key returned is \<open>validation_n_points\<close>.
\<close>

theorem train_prefix_is_configured_name:
  "train ex_evaluate_space ex_fit_only False ex_train ex_validation ex_test cfg_validation
     ex_no_observers 42 =
     ([LogWarn ''Model does not support separate training and prediction.'',
       LogWarn ''Directly running on test dataset!'',
       LogInfo ''Fitting model...'',
       CallFitTransform \<lparr>shape = [2, 3], items = [[13, 14, 15], [16, 17, 18]]\<rparr>,
       LogInfo ''Running evaluation on validation dataset'',
       EvaluateSpace 42 \<lparr>shape = [2, 3], items = [[13, 14, 15], [16, 17, 18]]\<rparr>
         \<lparr>shape = [2, 2], items = [[13, 14], [16, 17]]\<rparr> [0, 1] 15],
      Inr [(''validation_n_points'', 2)])
   \<and> arrays_of ex_test = Inr (\<lparr>shape = [2, 3], items = [[13, 14, 15], [16, 17, 18]]\<rparr>, [0, 1])
   \<and> arrays_of ex_validation = Inr (\<lparr>shape = [1, 3], items = [[10, 11, 12]]\<rparr>, [1])"
  by (simp add: ex_run_mislabelled ex_arrays_of_test ex_arrays_of_validation)

section \<open>What the modules of submodules.py compute\<close>

lemma View_forward_flatten:
  "View_forward \<lparr>view_shape = [- 1, int k]\<rparr> x =
     (if k = 0 \<or> prod_list (dims x) mod k \<noteq> 0 then Inl RuntimeError
      else Inr \<lparr>dims = [prod_list (dims x) div k, k], flat = flat x\<rparr>)"
proof -
  have a: "int (prod_list (dims x)) mod int k = int (prod_list (dims x) mod k)"
    by (simp add: zmod_int)
  have b: "nat (int (prod_list (dims x)) div int k) = prod_list (dims x) div k"
    by (simp add: zdiv_int [symmetric])
  show ?thesis
    by (simp add: View_forward_def tensor_view_def Let_def a b del: of_nat_mod of_nat_div)
qed

text \<open>
  C7. \<open>forward\<close> first flattens the input: \<open>flatten\<close> is the view \<open>(-1, n_input_dims)\<close>,
  which raises when the number of elements is no multiple of \<open>n_input_dims\<close> and gives
  the same elements in rows of \<open>n_input_dims\<close> otherwise. \<open>forward\<close> of a model built with
  \<open>n\<close> projections returns a list exactly when that view and every one of the \<open>n\<close>
  sub-module calls return, and then the list has \<open>n\<close> elements and its element \<open>i\<close> is
  what the sub-module stored under the name \<open>fc<i>\<close>, the \<open>i\<close>-th linear module with its
  weight made orthogonal, returns for the flattened input.
\<close>

theorem OrthoProjectionModel_forward_outputs:
  "flatten (OrthoProjectionModel_init nn input_dims n out_dim)
     = \<lparr>view_shape = [- 1, int (prod_list input_dims)]\<rparr>
   \<and> View_forward (flatten (OrthoProjectionModel_init nn input_dims n out_dim)) x
     = (if prod_list input_dims = 0 \<or> prod_list (dims x) mod prod_list input_dims \<noteq> 0
        then Inl RuntimeError
        else Inr \<lparr>dims = [prod_list (dims x) div prod_list input_dims, prod_list input_dims],
                  flat = flat x\<rparr>)
   \<and> (prod_list input_dims = 0 \<or> prod_list (dims x) mod prod_list input_dims \<noteq> 0 \<longrightarrow>
        OrthoProjectionModel_forward nn
          (OrthoProjectionModel_init nn input_dims n out_dim) x = Inl RuntimeError)
   \<and> (OrthoProjectionModel_forward nn
          (OrthoProjectionModel_init nn input_dims n out_dim) x = Inr outputs \<longleftrightarrow>
        prod_list input_dims \<noteq> 0 \<and> prod_list (dims x) mod prod_list input_dims = 0
        \<and> length outputs = nat n
        \<and> (\<forall>i < nat n.
              getattr (OrthoProjectionModel_init nn input_dims n out_dim) (fc_name i)
                = Inr (orthogonal nn (Linear nn i (prod_list input_dims) out_dim))
              \<and> call nn (orthogonal nn (Linear nn i (prod_list input_dims) out_dim))
                   \<lparr>dims = [prod_list (dims x) div prod_list input_dims, prod_list input_dims],
                    flat = flat x\<rparr>
                = Inr (outputs ! i)))"
proof -
  let ?self = "OrthoProjectionModel_init nn input_dims n out_dim"
  have fl: "flatten ?self = \<lparr>view_shape = [- 1, int (prod_list input_dims)]\<rparr>"
    and np: "n_projections ?self = n"
    by (simp_all add: OrthoProjectionModel_init_def Let_def)
  have vw: "View_forward (flatten ?self) x
     = (if prod_list input_dims = 0 \<or> prod_list (dims x) mod prod_list input_dims \<noteq> 0
        then Inl RuntimeError
        else Inr \<lparr>dims = [prod_list (dims x) div prod_list input_dims, prod_list input_dims],
                  flat = flat x\<rparr>)"
    unfolding fl by (rule View_forward_flatten)
  have err: "prod_list input_dims = 0 \<or> prod_list (dims x) mod prod_list input_dims \<noteq> 0 \<longrightarrow>
        OrthoProjectionModel_forward nn ?self x = Inl RuntimeError"
    by (simp add: OrthoProjectionModel_forward_def vw)
  have main: "OrthoProjectionModel_forward nn ?self x = Inr outputs \<longleftrightarrow>
        prod_list input_dims \<noteq> 0 \<and> prod_list (dims x) mod prod_list input_dims = 0
        \<and> length outputs = nat n
        \<and> (\<forall>i < nat n.
              getattr ?self (fc_name i)
                = Inr (orthogonal nn (Linear nn i (prod_list input_dims) out_dim))
              \<and> call nn (orthogonal nn (Linear nn i (prod_list input_dims) out_dim))
                   \<lparr>dims = [prod_list (dims x) div prod_list input_dims, prod_list input_dims],
                    flat = flat x\<rparr>
                = Inr (outputs ! i))"
  proof (cases "prod_list input_dims = 0 \<or> prod_list (dims x) mod prod_list input_dims \<noteq> 0")
    case True
    with err show ?thesis by auto
  next
    case False
    then show ?thesis
      by (auto simp: OrthoProjectionModel_forward_def vw np forward_loop_Inr getattr_init)
  qed
  from fl vw err main show ?thesis
    by - (intro conjI; assumption)
qed

theorem OrthoProjectionModel_forward_outputs_witness:
  "OrthoProjectionModel_forward ex_nn (OrthoProjectionModel_init ex_nn [2, 2] 3 5)
       \<lparr>dims = [2, 2, 2], flat = [1, 2, 3, 4, 5, 6, 7, 8]\<rparr>
     = Inr [((0, True), \<lparr>dims = [2, 4], flat = [1, 2, 3, 4, 5, 6, 7, 8]\<rparr>),
            ((1, True), \<lparr>dims = [2, 4], flat = [1, 2, 3, 4, 5, 6, 7, 8]\<rparr>),
            ((2, True), \<lparr>dims = [2, 4], flat = [1, 2, 3, 4, 5, 6, 7, 8]\<rparr>)]
   \<and> View_forward (flatten (OrthoProjectionModel_init ex_nn [2, 2] 3 5))
       \<lparr>dims = [2, 2, 2], flat = [1, 2, 3, 4, 5, 6, 7, 8 :: int]\<rparr>
     = Inr \<lparr>dims = [2, 4], flat = [1, 2, 3, 4, 5, 6, 7, 8]\<rparr>
   \<and> OrthoProjectionModel_forward ex_nn (OrthoProjectionModel_init ex_nn [2, 2] 3 5)
       \<lparr>dims = [3], flat = [1, 2, 3]\<rparr>
     = Inl RuntimeError
   \<and> map fc_name [0, 1, 2] = [''fc0'', ''fc1'', ''fc2'']"
proof -
  have names: "map fc_name [0, 1, 2] = [''fc0'', ''fc1'', ''fc2'']"
    by code_simp
  note inst = OrthoProjectionModel_forward_outputs [of ex_nn "[2, 2]" 3 5
      "\<lparr>dims = [2, 2, 2], flat = [1, 2, 3, 4, 5, 6, 7, 8]\<rparr>"]
  have a: "OrthoProjectionModel_forward ex_nn (OrthoProjectionModel_init ex_nn [2, 2] 3 5)
       \<lparr>dims = [2, 2, 2], flat = [1, 2, 3, 4, 5, 6, 7, 8]\<rparr>
     = Inr [((0, True), \<lparr>dims = [2, 4], flat = [1, 2, 3, 4, 5, 6, 7, 8]\<rparr>),
            ((1, True), \<lparr>dims = [2, 4], flat = [1, 2, 3, 4, 5, 6, 7, 8]\<rparr>),
            ((2, True), \<lparr>dims = [2, 4], flat = [1, 2, 3, 4, 5, 6, 7, 8]\<rparr>)]"
    unfolding inst [THEN conjunct2, THEN conjunct2, THEN conjunct2]
    by (simp add: ex_nn_def getattr_init less_Suc_eq numeral_3_eq_3 all_conj_distrib)
  have b: "View_forward (flatten (OrthoProjectionModel_init ex_nn [2, 2] 3 5))
       \<lparr>dims = [2, 2, 2], flat = [1, 2, 3, 4, 5, 6, 7, 8 :: int]\<rparr>
     = Inr \<lparr>dims = [2, 4], flat = [1, 2, 3, 4, 5, 6, 7, 8]\<rparr>"
    unfolding inst [THEN conjunct2, THEN conjunct1]
    by simp
  have c: "OrthoProjectionModel_forward ex_nn (OrthoProjectionModel_init ex_nn [2, 2] 3 5)
       \<lparr>dims = [3], flat = [1, 2, 3]\<rparr>
     = Inl RuntimeError"
    using OrthoProjectionModel_forward_outputs [of ex_nn "[2, 2]" 3 5
        "\<lparr>dims = [3], flat = [1, 2, 3]\<rparr>", THEN conjunct2, THEN conjunct2, THEN conjunct1]
    by simp
  from a b c names show ?thesis
    by - (intro conjI; assumption)
qed

subsection \<open>The mean-squared error of tensors of one shape\<close>

lemma concat_slices:
  "length xs = d * n \<Longrightarrow> concat (map (\<lambda>i. take n (drop (i * n) xs)) [0..<d]) = xs"
proof (induction d arbitrary: xs)
  case 0
  then show ?case by simp
next
  case (Suc d)
  have "concat (map (\<lambda>i. take n (drop (i * n) xs)) [0..<d])
          = concat (map (\<lambda>i. take n (drop (i * n) (take (d * n) xs))) [0..<d])"
  proof -
    have "take n (drop (i * n) xs) = take n (drop (i * n) (take (d * n) xs))" if "i < d" for i
    proof -
      from that have "i * n + n \<le> d * n"
        by (metis Suc_leI mult_Suc mult_le_mono1 add.commute)
      then show ?thesis
        by (simp add: drop_take min_def)
    qed
    then show ?thesis
      by (auto intro!: arg_cong [of _ _ concat])
  qed
  also have "\<dots> = take (d * n) xs"
    using Suc.prems by (intro Suc.IH) simp
  finally have "concat (map (\<lambda>i. take n (drop (i * n) xs)) [0..<Suc d])
      = take (d * n) xs @ take n (drop (d * n) xs)"
    by simp
  also have "\<dots> = xs"
    using Suc.prems by simp
  finally show ?case .
qed

lemma expand_same: "length xs = prod_list s \<Longrightarrow> expand s s xs = xs"
proof (induction s arbitrary: xs)
  case Nil
  then show ?case by simp
next
  case (Cons d ds)
  have "expand ds ds (take (prod_list ds) (drop (i * prod_list ds) xs))
          = take (prod_list ds) (drop (i * prod_list ds) xs)" if "i < d" for i
  proof -
    from that have "i * prod_list ds + prod_list ds \<le> d * prod_list ds"
      by (metis Suc_leI mult_Suc mult_le_mono1 add.commute)
    with Cons.prems show ?thesis
      by (intro Cons.IH) simp
  qed
  then have "concat (map (\<lambda>i. expand ds ds (take (prod_list ds) (drop (i * prod_list ds) xs))) [0..<d])
      = concat (map (\<lambda>i. take (prod_list ds) (drop (i * prod_list ds) xs)) [0..<d])"
    by (auto intro!: arg_cong [of _ _ concat])
  also have "\<dots> = xs"
    using Cons.prems by (simp add: concat_slices)
  finally show ?case
    by (simp add: Let_def)
qed

lemma broadcast_dims_same: "broadcast_dims s s = Some s"
  by (induction s) simp_all

lemma broadcast_shapes_same: "broadcast_shapes s s = Some s"
  by (simp add: broadcast_shapes_def pad_dims_def broadcast_dims_same)

lemma MSELoss_same_shape:
  assumes "dims target = dims input"
    and "length (flat input) = prod_list (dims input)"
    and "length (flat target) = prod_list (dims input)"
  shows "MSELoss input target = Inr (mean_squared (flat input) (flat target))"
  using assms
  by (simp add: MSELoss_def broadcast_shapes_same pad_dims_def expand_same)


lemma forward_is_body:
  "forward c self x = forward_body (encode c) (decode c) self x"
  by (cases c) simp_all

lemma ae_init_fields:
  "encode c (ae_init c enc dec) x = enc x"
  "decode c (ae_init c enc dec) z = dec z"
  "reconst_error (ae_init c enc dec) = MSELoss"
  by (cases c; simp)+

lemma forward_body_Inr:
  "forward_body enc' dec' self x = Inr r \<longleftrightarrow>
     (\<exists>latent x_reconst e.
        enc' self x = Inr latent \<and> dec' self latent = Inr x_reconst
        \<and> reconst_error self x x_reconst = Inr e
        \<and> r = (e, [(''reconstruction_error'', e)]))"
proof (cases "enc' self x")
  case (Inl e)
  then show ?thesis by (simp add: forward_body_def)
next
  case (Inr latent)
  note l = Inr
  show ?thesis
  proof (cases "dec' self latent")
    case (Inl e)
    with l show ?thesis by (simp add: forward_body_def)
  next
    case (Inr x_reconst)
    with l show ?thesis
      by (cases "reconst_error self x x_reconst")
         (auto simp: forward_body_def dict_setitem_def)
  qed
qed

text \<open>
  C8. For each of the nine classes and an object made by its constructor, \<open>forward\<close>
  returns exactly when the encoder, the decoder and \<open>nn.MSELoss()\<close> return, and what it
  returns is the pair of the reconstruction error \<open>e\<close> and the dictionary whose one entry
  maps \<open>'reconstruction_error'\<close> to \<open>e\<close>, where \<open>e\<close> is \<open>nn.MSELoss()\<close> of the input and of
  \<open>decode(encode(x))\<close>, in this order. When the reconstruction has the shape of the
  (non-empty) input, \<open>e\<close> is the sum of the squared differences of their elements
  divided by the number of elements.
\<close>

theorem autoencoder_forward:
  "(forward c (ae_init c enc dec) x = Inr r \<longleftrightarrow>
      (\<exists>latent x_reconst e.
         enc x = Inr latent \<and> dec latent = Inr x_reconst
         \<and> MSELoss x x_reconst = Inr e
         \<and> r = (e, [(''reconstruction_error'', e)])))
   \<and> (\<forall>latent x_reconst.
         enc x = Inr latent \<and> dec latent = Inr x_reconst
         \<and> dims x_reconst = dims x
         \<and> length (flat x) = prod_list (dims x)
         \<and> length (flat x_reconst) = prod_list (dims x)
         \<and> flat x \<noteq> [] \<longrightarrow>
         forward c (ae_init c enc dec) x
           = Inr (Loss ((\<Sum>(a, b) \<leftarrow> zip (flat x) (flat x_reconst). (a - b)\<^sup>2)
                          / real (length (flat x))),
                  [(''reconstruction_error'',
                    Loss ((\<Sum>(a, b) \<leftarrow> zip (flat x) (flat x_reconst). (a - b)\<^sup>2)
                          / real (length (flat x))))]))"
proof -
  have main: "forward c (ae_init c enc dec) x = Inr r \<longleftrightarrow>
      (\<exists>latent x_reconst e.
         enc x = Inr latent \<and> dec latent = Inr x_reconst
         \<and> MSELoss x x_reconst = Inr e
         \<and> r = (e, [(''reconstruction_error'', e)]))" for r
    by (simp only: forward_is_body forward_body_Inr ae_init_fields)
  have same: "forward c (ae_init c enc dec) x
           = Inr (Loss ((\<Sum>(a, b) \<leftarrow> zip (flat x) (flat x_reconst). (a - b)\<^sup>2)
                          / real (length (flat x))),
                  [(''reconstruction_error'',
                    Loss ((\<Sum>(a, b) \<leftarrow> zip (flat x) (flat x_reconst). (a - b)\<^sup>2)
                          / real (length (flat x))))])"
    if "enc x = Inr latent" "dec latent = Inr x_reconst" "dims x_reconst = dims x"
      "length (flat x) = prod_list (dims x)" "length (flat x_reconst) = prod_list (dims x)"
      "flat x \<noteq> []"
    for latent x_reconst
  proof -
    from that have "MSELoss x x_reconst
        = Inr (Loss ((\<Sum>(a, b) \<leftarrow> zip (flat x) (flat x_reconst). (a - b)\<^sup>2)
                          / real (length (flat x))))"
      by (simp add: MSELoss_same_shape mean_squared_def)
    with that(1,2) show ?thesis
      unfolding main by blast
  qed
  from main same show ?thesis
    by blast
qed

theorem autoencoder_forward_witness:
  "forward LinearAE (ae_init LinearAE ex_encoder ex_decoder) \<lparr>dims = [1, 3], flat = [1, 2, 3]\<rparr>
     = Inr (Loss 3, [(''reconstruction_error'', Loss 3)])
   \<and> ex_encoder \<lparr>dims = [1, 3], flat = [1, 2, 3]\<rparr> = Inr \<lparr>dims = [1, 2], flat = [1, 2]\<rparr>
   \<and> ex_decoder \<lparr>dims = [1, 2], flat = [1, 2]\<rparr> = Inr \<lparr>dims = [1, 3], flat = [1, 2, 0]\<rparr>
   \<and> MSELoss \<lparr>dims = [1, 3], flat = [1, 2, 3]\<rparr> \<lparr>dims = [1, 3], flat = [1, 2, 0]\<rparr>
     = Inr (Loss 3)"
proof -
  have parts:
    "ex_encoder \<lparr>dims = [1, 3], flat = [1, 2, 3]\<rparr> = Inr \<lparr>dims = [1, 2], flat = [1, 2]\<rparr>
     \<and> ex_decoder \<lparr>dims = [1, 2], flat = [1, 2]\<rparr> = Inr \<lparr>dims = [1, 3], flat = [1, 2, 0]\<rparr>
     \<and> dims \<lparr>dims = [1, 3], flat = [1, 2, 0 :: real]\<rparr> = dims \<lparr>dims = [1, 3], flat = [1, 2, 3 :: real]\<rparr>
     \<and> length (flat \<lparr>dims = [1, 3], flat = [1, 2, 3 :: real]\<rparr>)
         = prod_list (dims \<lparr>dims = [1, 3], flat = [1, 2, 3 :: real]\<rparr>)
     \<and> length (flat \<lparr>dims = [1, 3], flat = [1, 2, 0 :: real]\<rparr>)
         = prod_list (dims \<lparr>dims = [1, 3], flat = [1, 2, 3 :: real]\<rparr>)
     \<and> flat \<lparr>dims = [1, 3], flat = [1, 2, 3 :: real]\<rparr> \<noteq> []"
    by (simp add: ex_encoder_def ex_decoder_def)
  note inst = autoencoder_forward [of LinearAE ex_encoder ex_decoder
      "\<lparr>dims = [1, 3], flat = [1, 2, 3]\<rparr>", THEN conjunct2, rule_format, OF parts]
  have a: "forward LinearAE (ae_init LinearAE ex_encoder ex_decoder)
      \<lparr>dims = [1, 3], flat = [1, 2, 3]\<rparr>
     = Inr (Loss 3, [(''reconstruction_error'', Loss 3)])"
    using inst by simp
  have b: "MSELoss \<lparr>dims = [1, 3], flat = [1, 2, 3]\<rparr> \<lparr>dims = [1, 3], flat = [1, 2, 0]\<rparr>
     = Inr (Loss 3)"
    by (simp add: MSELoss_same_shape mean_squared_def)
  from a parts b show ?thesis
    by simp
qed

end
